theory Spec2Isabelle
  imports Complex_Main "HOL-Library.AList"
begin

section \<open>Python values used by the recommendation demo\<close>

text \<open>
  The programs are Python. Python integers are modelled by \<^typ>\<open>int\<close>, strings by
  \<^typ>\<open>string\<close>. Floats are modelled by \<^typ>\<open>real\<close>, with the rounding to a double
  written out where a result hangs on it: in the time decay, whose power underflows. A \<^verbatim>\<open>dict\<close> keeps insertion order, which the
  code observes through \<^verbatim>\<open>sorted\<close>, \<^verbatim>\<open>max\<close> and \<^verbatim>\<open>most_common\<close>, so a dict is an
  association list with distinct keys: a lookup is \<^const>\<open>map_of\<close>, an assignment
  \<^verbatim>\<open>d[k] = v\<close> is \<^const>\<open>AList.update\<close> (in place for an old key, at the end for a new one).
\<close>

datatype py_error = KeyError | ValueError | ZeroDivisionError

type_synonym ('k, 'v) py_dict = "('k \<times> 'v) list"

text \<open>\<^verbatim>\<open>{k: v for ...}\<close> and \<^verbatim>\<open>dict(pairs)\<close>: later pairs overwrite, first position kept.\<close>

definition dict_of :: "('k \<times> 'v) list \<Rightarrow> ('k, 'v) py_dict" where
  "dict_of kvs = fold (\<lambda>(k, v) d. AList.update k v d) kvs []"

text \<open>\<^verbatim>\<open>counter[k] += w\<close> on a \<^verbatim>\<open>Counter\<close>: a missing key counts as 0.\<close>

definition counter_get :: "('k, real) py_dict \<Rightarrow> 'k \<Rightarrow> real" where
  "counter_get c k = (case map_of c k of None \<Rightarrow> 0 | Some v \<Rightarrow> v)"

definition counter_add :: "'k \<Rightarrow> real \<Rightarrow> ('k, real) py_dict \<Rightarrow> ('k, real) py_dict" where
  "counter_add k w c = AList.update k (counter_get c k + w) c"

text \<open>\<^verbatim>\<open>Counter.update(other)\<close> adds the counts of \<^verbatim>\<open>other\<close>, in its order.\<close>

definition counter_update :: "('k, real) py_dict \<Rightarrow> ('k, real) py_dict \<Rightarrow> ('k, real) py_dict" where
  "counter_update c other = fold (\<lambda>(k, v) d. counter_add k v d) other c"

text \<open>
  \<^verbatim>\<open>sorted(xs, key=f, reverse=True)\<close> is stable: items of equal key keep their order.
  Sorting by the negated key with the stable insertion sort of the library is the same.
\<close>

definition sorted_desc :: "('a \<Rightarrow> real) \<Rightarrow> 'a list \<Rightarrow> 'a list" where
  "sorted_desc f xs = sort_key (\<lambda>x. - f x) xs"

text \<open>\<^verbatim>\<open>Counter.most_common(n)\<close> for \<open>n \<ge> 0\<close>: the \<open>n\<close> largest counts, ties in insertion order.\<close>

definition most_common :: "nat \<Rightarrow> ('k, real) py_dict \<Rightarrow> ('k \<times> real) list" where
  "most_common n c = take n (sorted_desc snd c)"

text \<open>\<^verbatim>\<open>max(items, key=f)\<close> returns the first maximal item; on an empty list it raises.\<close>

fun max_by :: "('a \<Rightarrow> real) \<Rightarrow> 'a \<Rightarrow> 'a list \<Rightarrow> 'a" where
  "max_by f best [] = best"
| "max_by f best (x # xs) = max_by f (if f best < f x then x else best) xs"

text \<open>\<^verbatim>\<open>xs[:n]\<close>: a negative bound counts from the end.\<close>

definition py_take :: "int \<Rightarrow> 'a list \<Rightarrow> 'a list" where
  "py_take n xs = (if 0 \<le> n then take (nat n) xs else take (length xs - nat (- n)) xs)"

subsection \<open>Strings\<close>

text \<open>
  Characters are bytes; \<^verbatim>\<open>lower\<close>, \<^verbatim>\<open>strip\<close> and \<^verbatim>\<open>split\<close> are modelled on ASCII, where
  Python also folds and strips the non-ASCII letters and spaces of Unicode.
\<close>

definition is_space :: "char \<Rightarrow> bool" where
  "is_space c = (c \<in> set [CHR '' '', CHR 0x09, CHR 0x0A, CHR 0x0B, CHR 0x0C, CHR 0x0D])"

definition strip :: "string \<Rightarrow> string" where
  "strip s = rev (dropWhile is_space (rev (dropWhile is_space s)))"

definition lower_char :: "char \<Rightarrow> char" where
  "lower_char c = (let n = of_char c :: nat in if 65 \<le> n \<and> n \<le> 90 then char_of (n + 32) else c)"

definition lower :: "string \<Rightarrow> string" where
  "lower s = map lower_char s"

text \<open>\<^verbatim>\<open>s.split(",")\<close>: the pieces between the separators; never the empty list.\<close>

fun split_on :: "char \<Rightarrow> string \<Rightarrow> string list" where
  "split_on sep [] = [[]]"
| "split_on sep (c # cs) =
     (if c = sep then [] # split_on sep cs
      else (case split_on sep cs of [] \<Rightarrow> [[c]] | w # ws \<Rightarrow> (c # w) # ws))"

text \<open>\<^verbatim>\<open>s.split()\<close>: the maximal runs of non-space characters.\<close>

fun split_ws :: "string \<Rightarrow> string list" where
  "split_ws [] = []"
| "split_ws (c # cs) =
     (if is_space c then split_ws cs
      else (case cs of
              [] \<Rightarrow> [[c]]
            | d # _ \<Rightarrow> (if is_space d then [c] # split_ws cs
                        else (case split_ws cs of [] \<Rightarrow> [[c]] | w # ws \<Rightarrow> (c # w) # ws))))"

text \<open>\<^verbatim>\<open>a in b\<close> on strings: \<open>a\<close> occurs in \<open>b\<close> as a contiguous piece.\<close>

fun starts_with :: "string \<Rightarrow> string \<Rightarrow> bool" where
  "starts_with [] s = True"
| "starts_with (a # as) [] = False"
| "starts_with (a # as) (c # cs) = (a = c \<and> starts_with as cs)"

fun str_in :: "string \<Rightarrow> string \<Rightarrow> bool" where
  "str_in a [] = (a = [])"
| "str_in a (c # cs) = (starts_with a (c # cs) \<or> str_in a cs)"

subsection \<open>Time\<close>

text \<open>
  A \<^verbatim>\<open>datetime\<close> is its number of microseconds since the epoch; the \<^verbatim>\<open>days\<close> of a
  \<^verbatim>\<open>timedelta\<close> is the floor of the difference in days. A time string is modelled by
  what \<^verbatim>\<open>strptime\<close> makes of it: \<open>Stamp t\<close> parses to \<open>t\<close>, \<open>Unparseable\<close> is a
  non-empty string that matches no accepted format, \<open>Empty\<close> is the empty string (falsy,
  and unparseable too). The wall clock \<^verbatim>\<open>datetime.now()\<close> is the parameter \<open>now\<close> of
  every function that reads it; it is taken not to advance during one call.
\<close>

type_synonym datetime = int

datatype time_str = Empty | Unparseable | Stamp datetime

definition usec_per_day :: int where
  "usec_per_day = 86400000000"

definition timedelta_days :: "int \<Rightarrow> int" where
  "timedelta_days d = d div usec_per_day"

definition days :: "int \<Rightarrow> int" where
  "days n = n * usec_per_day"

definition time_truthy :: "time_str \<Rightarrow> bool" where
  "time_truthy s = (s \<noteq> Empty)"

subsection \<open>Doubles\<close>

text \<open>
  A Python float is an IEEE 754 double: 53 bits of precision, least binary exponent
  \<open>-1022\<close>, least positive value \<open>2 powr (-1074)\<close>. An operation returns the double
  nearest to the exact result, a tie going to the even neighbour. Overflow is left out:
  the values rounded here are quotients of day counts and powers that are at most 1.
\<close>

definition round_half_even :: "real \<Rightarrow> int" where
  "round_half_even q =
     (let f = \<lfloor>q\<rfloor>; d = q - of_int f
      in if d < 1 / 2 then f else if 1 / 2 < d then f + 1 else if even f then f else f + 1)"

text \<open>The distance between neighbouring doubles around a positive real.\<close>

definition double_ulp :: "real \<Rightarrow> real" where
  "double_ulp r = 2 powr (of_int (max \<lfloor>log 2 r\<rfloor> (- 1022)) - 52)"

definition round_pos :: "real \<Rightarrow> real" where
  "round_pos r = of_int (round_half_even (r / double_ulp r)) * double_ulp r"

definition round_double :: "real \<Rightarrow> real" where
  "round_double r = (if r = 0 then 0 else if 0 < r then round_pos r else - round_pos (- r))"

text \<open>
  \<^verbatim>\<open>a / b\<close> on integers is the correctly rounded quotient. \<^verbatim>\<open>math.pow\<close> is taken to
  round the exact power to the nearest double, as the C library does at the exact
  powers of two and below the least positive double.
\<close>

definition float_div :: "real \<Rightarrow> real \<Rightarrow> real" where
  "float_div a b = round_double (a / b)"

definition math_pow :: "real \<Rightarrow> real \<Rightarrow> real" where
  "math_pow b x = round_double (b powr x)"

section \<open>real\_prototype/user\_profiling.py\<close>

subsection \<open>Data\<close>

text \<open>
  An event and a material are JSON objects read with \<^verbatim>\<open>get\<close>: every field is optional
  (\<open>None\<close> is a missing key). Prices, ratings and frequencies are numbers.
\<close>

record event =
  e_user_id :: "string option"
  e_material_id :: "string option"
  e_time :: "time_str option"
  e_date :: "time_str option"
  e_last_search_date :: "time_str option"
  e_categories :: "string option"
  e_class_grades :: "string option"
  e_price_euro :: "real option"
  e_search_keyword :: "string option"
  e_search_frequency :: "int option"

record material =
  material_id :: string
  material_title :: "string option"
  categories :: "string option"
  class_grades :: "string option"
  author_id :: "string option"
  price :: "real option"
  bestseller_rating :: "real option"
  created_at :: "time_str option"
  updated_at :: "time_str option"

datatype event_type =
  Purchases | ViewMaterial | ShowMaterialPreview | AddToCart | FreeDownload | AddToFavorites | Searches

text \<open>The keys of the event dictionary, in the order \<^verbatim>\<open>_load_all_event_data\<close> inserts them.\<close>

definition event_files :: "event_type list" where
  "event_files =
     [Purchases, ViewMaterial, ShowMaterialPreview, AddToCart, FreeDownload, AddToFavorites, Searches]"

type_synonym event_data = "event_type \<Rightarrow> event list"

record repository =
  all_events :: event_data
  materials_list :: "material list"

definition get_materials :: "repository \<Rightarrow> (string, material) py_dict" where
  "get_materials repo = dict_of (map (\<lambda>item. (material_id item, item)) (materials_list repo))"

definition get_user_events :: "repository \<Rightarrow> string \<Rightarrow> event_data" where
  "get_user_events repo uid = (\<lambda>ty. filter (\<lambda>ev. e_user_id ev = Some uid) (all_events repo ty))"

subsection \<open>EventProcessor\<close>

fun grade_weights :: "event_type \<Rightarrow> real" where
  "grade_weights Purchases = 1"
| "grade_weights ViewMaterial = 46 / 100"
| "grade_weights ShowMaterialPreview = 32 / 100"
| "grade_weights Searches = 0"
| "grade_weights AddToCart = 20 / 100"
| "grade_weights FreeDownload = 11 / 100"
| "grade_weights AddToFavorites = 10 / 100"

fun subject_weights :: "event_type \<Rightarrow> real" where
  "subject_weights Purchases = 1"
| "subject_weights ViewMaterial = 52 / 100"
| "subject_weights ShowMaterialPreview = 36 / 100"
| "subject_weights Searches = 29 / 100"
| "subject_weights AddToCart = 23 / 100"
| "subject_weights FreeDownload = 12 / 100"
| "subject_weights AddToFavorites = 11 / 100"

definition event_priority_order :: "event_type list" where
  "event_priority_order =
     [Purchases, ViewMaterial, ShowMaterialPreview, AddToCart, Searches, FreeDownload, AddToFavorites]"

definition get_event_weight :: "event_type \<Rightarrow> bool \<Rightarrow> real" where
  "get_event_weight ty for_grade = (if for_grade then grade_weights ty else subject_weights ty)"

text \<open>\<^verbatim>\<open>parse_datetime\<close>: when both formats fail, the current time.\<close>

definition parse_datetime :: "datetime \<Rightarrow> time_str \<Rightarrow> datetime" where
  "parse_datetime now s = (case s of Stamp t \<Rightarrow> t | _ \<Rightarrow> now)"

definition half_life :: real where
  "half_life = 30"

definition calculate_time_decay :: "datetime \<Rightarrow> time_str \<Rightarrow> datetime option \<Rightarrow> real" where
  "calculate_time_decay now event_time reference_time =
     (let reference = (case reference_time of None \<Rightarrow> now | Some r \<Rightarrow> r);
          event_datetime = parse_datetime now event_time;
          days_diff = timedelta_days (reference - event_datetime);
          days_diff = max 0 days_diff
      in math_pow 2 (float_div (- real_of_int days_diff) half_life))"

definition extract_categories :: "string \<Rightarrow> string list" where
  "extract_categories categories_str =
     (if categories_str = [] \<or> categories_str = ''Unknown'' then []
      else map strip (split_on CHR '','' categories_str))"

definition extract_grades :: "string \<Rightarrow> string list" where
  "extract_grades grades_str =
     (if grades_str = [] \<or> grades_str = ''Unknown'' then []
      else map strip (split_on CHR '','' grades_str))"

text \<open>
  \<^verbatim>\<open>get_event_time\<close>: without any time field, today's date as a string, which parses to
  the midnight before \<open>now\<close>.
\<close>

definition get_event_time :: "datetime \<Rightarrow> event \<Rightarrow> time_str" where
  "get_event_time now ev =
     (case e_time ev of Some s \<Rightarrow> s
      | None \<Rightarrow> (case e_date ev of Some s \<Rightarrow> s
         | None \<Rightarrow> (case e_last_search_date ev of Some s \<Rightarrow> s
            | None \<Rightarrow> Stamp (now - now mod usec_per_day))))"

subsection \<open>PriceAnalyzer\<close>

definition get_price_range :: "real \<Rightarrow> string" where
  "get_price_range p =
     (if p = 0 then ''free''
      else if 0 < p \<and> p \<le> 2 then ''low''
      else if 2 < p \<and> p \<le> 7 then ''medium''
      else ''high'')"

definition or_default :: "'a option \<Rightarrow> 'a \<Rightarrow> 'a" where
  "or_default v d = (case v of None \<Rightarrow> d | Some x \<Rightarrow> x)"

definition analyze_price_preferences :: "datetime \<Rightarrow> event list \<Rightarrow> (string, real) py_dict" where
  "analyze_price_preferences now purchases =
     (let price_ranges_counter =
            fold (\<lambda>purchase c.
                    let p = or_default (e_price_euro purchase) 0;
                        price_range = get_price_range p;
                        time_str = (case e_time purchase of Some s \<Rightarrow> s
                                    | None \<Rightarrow> or_default (e_date purchase) Empty)
                    in if time_truthy time_str
                       then counter_add price_range (calculate_time_decay now time_str None) c
                       else counter_add price_range 1 c)
                 purchases [];
          s = sum_list (map snd price_ranges_counter);
          total = (if s = 0 then 1 else s)
      in map (\<lambda>(k, v). (k, v / total)) price_ranges_counter)"

subsection \<open>SearchAnalyzer\<close>

definition extract_search_insights ::
  "datetime \<Rightarrow> (string, material) py_dict \<Rightarrow> event list \<Rightarrow> real
     \<Rightarrow> (string, real) py_dict \<times> (string, real) py_dict" where
  "extract_search_insights now materials searches weight =
     fold (\<lambda>search (categories_counter, grades_counter).
             let query = lower (or_default (e_search_keyword search) []);
                 frequency = or_default (e_search_frequency search) 1;
                 time_decay = calculate_time_decay now
                                (or_default (e_last_search_date search) Empty) None;
                 weighted_score = weight * time_decay * real_of_int frequency
             in fold (\<lambda>m (cc, gc).
                        (fold (\<lambda>category c.
                                 if str_in (lower category) query
                                 then counter_add category weighted_score c else c)
                              (extract_categories (or_default (categories m) [])) cc,
                         fold (\<lambda>grade c.
                                 if str_in (lower grade) query
                                 then counter_add grade (weighted_score * (1 / 2)) c else c)
                              (extract_grades (or_default (class_grades m) [])) gc))
                     (map snd materials) (categories_counter, grades_counter))
          searches ([], [])"

subsection \<open>UserProfiler\<close>

definition get_reference_time :: "datetime \<Rightarrow> event_data \<Rightarrow> datetime" where
  "get_reference_time now user_events =
     (let all_times =
            concat (map (\<lambda>ty. map (\<lambda>ev. parse_datetime now (get_event_time now ev))
                                 (filter (\<lambda>ev. time_truthy (get_event_time now ev)) (user_events ty)))
                        event_files)
      in (case all_times of [] \<Rightarrow> now | t # ts \<Rightarrow> fold max ts t))"

definition process_material_based_events ::
  "datetime \<Rightarrow> event list \<Rightarrow> event_type \<Rightarrow> datetime \<Rightarrow> (string, material) py_dict
     \<Rightarrow> (string, real) py_dict \<times> (string, real) py_dict" where
  "process_material_based_events now events ty reference_time materials =
     fold (\<lambda>ev (categories_counter, grades_counter).
             (case e_material_id ev of
                None \<Rightarrow> (categories_counter, grades_counter)
              | Some mid \<Rightarrow>
                  if mid = [] then (categories_counter, grades_counter)
                  else
                    let (cats_str, grades_str) =
                          (case map_of materials mid of
                             Some m \<Rightarrow> (or_default (categories m) [], or_default (class_grades m) [])
                           | None \<Rightarrow> (or_default (e_categories ev) [], or_default (e_class_grades ev) []));
                        time_str = get_event_time now ev;
                        time_decay = calculate_time_decay now time_str (Some reference_time);
                        cat_weight = get_event_weight ty False * time_decay;
                        grade_weight = get_event_weight ty True * time_decay
                    in (fold (\<lambda>category c. counter_add category cat_weight c)
                             (extract_categories cats_str) categories_counter,
                        fold (\<lambda>grade c. counter_add grade grade_weight c)
                             (extract_grades grades_str) grades_counter)))
          events ([], [])"

record profile =
  user_id :: string
  preferred_categories :: "string list"
  preferred_grades :: "string list"
  price_preference :: string
  category_weights :: "(string, real) py_dict"
  grade_weights_of :: "(string, real) py_dict"
  price_range_weights :: "(string, real) py_dict"
  event_counts :: "(event_type \<times> nat) list"
  profile_generation_time :: datetime

definition create_user_profile :: "datetime \<Rightarrow> repository \<Rightarrow> string \<Rightarrow> profile" where
  "create_user_profile now repo uid =
     (let user_events = get_user_events repo uid;
          materials = get_materials repo;
          reference_time = get_reference_time now user_events;
          counts = map (\<lambda>ty. (ty, length (user_events ty))) event_files;
          (all_categories, all_grades) =
            fold (\<lambda>ty (all_c, all_g).
                    let events = user_events ty;
                        (cat_counter, grade_counter) =
                          (if ty = Searches
                           then extract_search_insights now materials events
                                  (get_event_weight ty False)
                           else process_material_based_events now events ty reference_time
                                  materials)
                    in (counter_update all_c cat_counter, counter_update all_g grade_counter))
                 event_priority_order ([], []);
          price_preferences = analyze_price_preferences now (user_events Purchases);
          top_price = (case price_preferences of
                         [] \<Rightarrow> ''medium''
                       | kv # kvs \<Rightarrow> fst (max_by snd kv kvs))
      in \<lparr> user_id = uid,
           preferred_categories = map fst (most_common 3 all_categories),
           preferred_grades = map fst (most_common 3 all_grades),
           price_preference = top_price,
           category_weights = all_categories,
           grade_weights_of = all_grades,
           price_range_weights = price_preferences,
           event_counts = counts,
           profile_generation_time = now \<rparr>)"

section \<open>real\_prototype/recommendation.py\<close>

subsection \<open>MaterialRecommender\<close>

text \<open>The truth value \<^verbatim>\<open>material.get(key)\<close> has in a condition.\<close>

definition str_truthy :: "string option \<Rightarrow> bool" where
  "str_truthy v = (case v of None \<Rightarrow> False | Some s \<Rightarrow> s \<noteq> [])"

definition num_truthy :: "real option \<Rightarrow> bool" where
  "num_truthy v = (case v of None \<Rightarrow> False | Some r \<Rightarrow> r \<noteq> 0)"

definition config_freshness_recent :: real where
  "config_freshness_recent = 3 / 2"

definition config_freshness_standard :: real where
  "config_freshness_standard = 1"

definition config_freshness_older :: real where
  "config_freshness_older = 7 / 10"

definition config_max_per_author :: int where
  "config_max_per_author = 4"

definition shares_word :: "string \<Rightarrow> string \<Rightarrow> bool" where
  "shares_word category other_category =
     list_ex (\<lambda>w. w \<in> set (split_ws (lower other_category))) (split_ws (lower category))"

text \<open>
  \<^verbatim>\<open>_build_category_relationships\<close>. The source iterates over a set, so the order of the
  keys and of each list is not fixed by the program; only membership is read later.
\<close>

definition build_category_relationships :: "repository \<Rightarrow> (string, string list) py_dict" where
  "build_category_relationships repo =
     (let all_categories =
            remdups (concat (map (\<lambda>m. extract_categories (or_default (categories m) []))
                                 (map snd (get_materials repo))))
      in filter (\<lambda>(c, rel). rel \<noteq> [])
           (map (\<lambda>c. (c, filter (\<lambda>other. c \<noteq> other \<and> shares_word c other) all_categories))
                all_categories))"

text \<open>\<^verbatim>\<open>_get_user_interactions\<close>: the ids the user purchased or downloaded.\<close>

definition get_user_interactions :: "repository \<Rightarrow> string \<Rightarrow> string set" where
  "get_user_interactions repo uid =
     set (concat (map (\<lambda>ty. concat (map (\<lambda>ev. case e_material_id ev of
                                                 None \<Rightarrow> []
                                               | Some mid \<Rightarrow> if mid \<noteq> [] then [mid] else [])
                                        (get_user_events repo uid ty)))
                      [Purchases, FreeDownload]))"

text \<open>
  \<^verbatim>\<open>_get_freshness_score\<close>. The date fields are given by what \<^verbatim>\<open>strptime\<close> makes of
  their first word; every failure takes the \<^verbatim>\<open>except\<close> branch.
\<close>

definition get_freshness_score :: "datetime \<Rightarrow> material \<Rightarrow> real" where
  "get_freshness_score now m =
     (let created = (case created_at m of Some (Stamp t) \<Rightarrow> t | _ \<Rightarrow> now - days 365);
          updated = (case updated_at m of Some (Stamp t) \<Rightarrow> t | _ \<Rightarrow> created);
          latest_date = max created updated;
          age_days = timedelta_days (now - latest_date)
      in if age_days < 90 then config_freshness_recent
         else if age_days < 365 then config_freshness_standard
         else config_freshness_older)"

fun index_of :: "'a \<Rightarrow> 'a list \<Rightarrow> nat option" where
  "index_of x [] = None"
| "index_of x (y # ys) = (if x = y then Some 0 else map_option Suc (index_of x ys))"

definition range_order :: "string list" where
  "range_order = [''free'', ''low'', ''medium'', ''high'']"

definition is_price_adjacent :: "string \<Rightarrow> string \<Rightarrow> bool" where
  "is_price_adjacent price_range preferred_range =
     (if price_range = preferred_range then False
      else (case (index_of price_range range_order, index_of preferred_range range_order) of
              (Some price_idx, Some preferred_idx) \<Rightarrow> \<bar>int price_idx - int preferred_idx\<bar> = 1
            | _ \<Rightarrow> False))"

text \<open>The recommender's own copy of the bucketing function, \<^verbatim>\<open>_get_price_range\<close>.\<close>

definition recommender_get_price_range :: "real \<Rightarrow> string" where
  "recommender_get_price_range p =
     (if p = 0 then ''free''
      else if 0 < p \<and> p \<le> 2 then ''low''
      else if 2 < p \<and> p \<le> 7 then ''medium''
      else ''high'')"

definition score_material_for_user ::
  "(string, string list) py_dict \<Rightarrow> material \<Rightarrow> profile \<Rightarrow> string \<Rightarrow> real" where
  "score_material_for_user related_categories m user_profile score_type =
     (if score_type = ''category'' then
        (let material_categories = extract_categories (or_default (categories m) []);
             preferred = preferred_categories user_profile;
             score = fold (\<lambda>category score.
                       (case index_of category preferred of
                          Some rank \<Rightarrow>
                            score + 1 / (real rank + 1)
                              + counter_get (category_weights user_profile) category / 100
                        | None \<Rightarrow>
                            if list_ex (\<lambda>pref. category \<in> set (or_default (map_of related_categories pref) []))
                                 preferred
                            then score + 3 / 10 else score))
                     material_categories 0
         in min 1 score)
      else if score_type = ''grade'' then
        (let material_grades = extract_grades (or_default (class_grades m) []);
             preferred = preferred_grades user_profile;
             score = fold (\<lambda>grade score.
                       (case index_of grade preferred of
                          Some rank \<Rightarrow>
                            score + 1 / (real rank + 1)
                              + counter_get (grade_weights_of user_profile) grade / 100
                        | None \<Rightarrow> score))
                     material_grades 0
         in min 1 score)
      else if score_type = ''price'' then
        (let p = or_default (price m) 0;
             price_range = recommender_get_price_range p;
             preferred_range = price_preference user_profile
         in if price_range = preferred_range then 1
            else if is_price_adjacent price_range preferred_range then 1 / 2
            else 2 / 10)
      else 0)"

record scored =
  s_material_id :: string
  s_material :: material
  s_score :: real
  s_category_score :: real
  s_grade_score :: real
  s_price_score :: real
  s_freshness_factor :: real
  s_bestseller_score :: real
  s_is_fallback :: bool

definition author_of :: "scored \<Rightarrow> string" where
  "author_of item = or_default (author_id (s_material item)) ''unknown''"

text \<open>
  \<^verbatim>\<open>_filter_by_author_diversity\<close>: the loop, with the \<^verbatim>\<open>defaultdict(int)\<close> of counts as a
  total function that is 0 on every author not yet seen.
\<close>

fun author_diversity_loop :: "(string \<Rightarrow> int) \<Rightarrow> int \<Rightarrow> scored list \<Rightarrow> scored list" where
  "author_diversity_loop author_counts max_per_author [] = []"
| "author_diversity_loop author_counts max_per_author (item # items) =
     (let a = author_of item
      in if author_counts a < max_per_author
         then item # author_diversity_loop (author_counts(a := author_counts a + 1)) max_per_author items
         else author_diversity_loop author_counts max_per_author items)"

definition filter_by_author_diversity :: "scored list \<Rightarrow> int \<Rightarrow> scored list" where
  "filter_by_author_diversity materials max_per_author =
     author_diversity_loop (\<lambda>_. 0) max_per_author materials"

definition bestseller_score_of :: "material \<Rightarrow> real" where
  "bestseller_score_of m = min 1 (or_default (bestseller_rating m) 0 / 1000)"

text \<open>
  The scoring loop of \<^verbatim>\<open>recommend_materials\<close>. \<^verbatim>\<open>random.random()\<close> is the sequence
  \<open>rnd\<close>: the \<open>i\<close>-th call returns \<open>rnd i\<close>, and \<open>i\<close> counts the materials scored so far.
\<close>

fun score_candidates ::
  "datetime \<Rightarrow> (nat \<Rightarrow> real) \<Rightarrow> (string, string list) py_dict \<Rightarrow> profile \<Rightarrow> real \<Rightarrow> nat
     \<Rightarrow> (string \<times> material) list \<Rightarrow> scored list" where
  "score_candidates now rnd related user_profile diversity_factor i [] = []"
| "score_candidates now rnd related user_profile diversity_factor i ((mid, m) # rest) =
     (if \<not> str_truthy (categories m) \<or> \<not> str_truthy (class_grades m)
      then score_candidates now rnd related user_profile diversity_factor i rest
      else
        (let category_score = score_material_for_user related m user_profile ''category'';
             grade_score = score_material_for_user related m user_profile ''grade'';
             price_score = score_material_for_user related m user_profile ''price'';
             freshness_factor = get_freshness_score now m;
             bestseller_score = bestseller_score_of m;
             combined_score =
               (category_score * (35 / 100) + grade_score * (25 / 100)
                 + price_score * (15 / 100) + bestseller_score * (15 / 100)) * freshness_factor;
             randomness = rnd i * diversity_factor;
             final_score = combined_score * (1 - diversity_factor) + randomness
         in \<lparr> s_material_id = mid, s_material = m, s_score = final_score,
              s_category_score = category_score, s_grade_score = grade_score,
              s_price_score = price_score, s_freshness_factor = freshness_factor,
              s_bestseller_score = bestseller_score, s_is_fallback = False \<rparr>
            # score_candidates now rnd related user_profile diversity_factor (Suc i) rest))"

text \<open>The popularity score of a fallback item: the capped rating times the freshness.\<close>

definition fallback_score :: "real \<Rightarrow> real \<Rightarrow> real" where
  "fallback_score bestseller_score freshness_factor = bestseller_score * freshness_factor"

definition fallback_item :: "datetime \<Rightarrow> string \<Rightarrow> material \<Rightarrow> scored" where
  "fallback_item now mid m =
     (let freshness_factor = get_freshness_score now m;
          bestseller_score = bestseller_score_of m
      in \<lparr> s_material_id = mid, s_material = m,
           s_score = fallback_score bestseller_score freshness_factor,
           s_category_score = 0, s_grade_score = 0, s_price_score = 0,
           s_freshness_factor = freshness_factor, s_bestseller_score = bestseller_score,
           s_is_fallback = True \<rparr>)"

definition bestseller_materials ::
  "datetime \<Rightarrow> string set \<Rightarrow> (string \<times> material) list \<Rightarrow> scored list" where
  "bestseller_materials now used_material_ids candidate_materials =
     map (\<lambda>(mid, m). fallback_item now mid m)
         (filter (\<lambda>(mid, m). \<not> (mid \<in> used_material_ids \<or> \<not> num_truthy (bestseller_rating m)))
                 candidate_materials)"

record recommendation =
  r_material_id :: string
  r_title :: string
  r_price :: "real option"
  r_categories :: string
  r_class_grades :: string
  r_author_id :: string
  r_score :: real
  r_is_fallback :: bool
  r_category_match :: real
  r_grade_match :: real
  r_price_match :: real
  r_freshness :: real
  r_popularity :: real

text \<open>
  The record built for each selected item. A missing price is copied as the empty string,
  here \<open>None\<close>.
\<close>

definition format_recommendation :: "scored \<Rightarrow> recommendation" where
  "format_recommendation item =
     (let m = s_material item
      in \<lparr> r_material_id = s_material_id item,
           r_title = or_default (material_title m) [],
           r_price = price m,
           r_categories = or_default (categories m) [],
           r_class_grades = or_default (class_grades m) [],
           r_author_id = or_default (author_id m) ''unknown'',
           r_score = s_score item,
           r_is_fallback = s_is_fallback item,
           r_category_match = s_category_score item,
           r_grade_match = s_grade_score item,
           r_price_match = s_price_score item,
           r_freshness = s_freshness_factor item,
           r_popularity = s_bestseller_score item \<rparr>)"

definition candidate_materials_of :: "repository \<Rightarrow> string \<Rightarrow> (string \<times> material) list" where
  "candidate_materials_of repo uid =
     filter (\<lambda>(mid, m). mid \<notin> get_user_interactions repo uid) (get_materials repo)"

definition recommend_materials ::
  "datetime \<Rightarrow> (nat \<Rightarrow> real) \<Rightarrow> repository \<Rightarrow> profile \<Rightarrow> int \<Rightarrow> real \<Rightarrow> recommendation list" where
  "recommend_materials now rnd repo user_profile limit diversity_factor =
     (let uid = user_id user_profile
      in if uid = [] then []
         else
           (let candidate_materials = candidate_materials_of repo uid
            in if candidate_materials = [] then []
               else
                 (let scored_materials =
                        score_candidates now rnd (build_category_relationships repo) user_profile
                          diversity_factor 0 candidate_materials;
                      sorted_materials = sorted_desc s_score scored_materials;
                      sorted_materials =
                        (if int (length sorted_materials) < limit
                         then
                           (let used_material_ids = set (map s_material_id sorted_materials);
                                fallback = sorted_desc s_score
                                  (bestseller_materials now used_material_ids candidate_materials)
                            in sorted_materials @ py_take (limit * 2) fallback)
                         else sorted_materials);
                      top_materials =
                        py_take (min limit (int (length sorted_materials))) sorted_materials
                  in map format_recommendation top_materials)))"

subsection \<open>RecommendationService\<close>

definition get_recommendations_for_user ::
  "datetime \<Rightarrow> (nat \<Rightarrow> real) \<Rightarrow> repository \<Rightarrow> string \<Rightarrow> int \<Rightarrow> real \<Rightarrow> recommendation list" where
  "get_recommendations_for_user now rnd repo uid limit diversity_factor =
     recommend_materials now rnd repo (create_user_profile now repo uid) limit diversity_factor"

text \<open>\<^verbatim>\<open>Counter(xs)\<close>: the number of occurrences of each item, in order of first occurrence.\<close>

definition counter_of :: "'k list \<Rightarrow> ('k, real) py_dict" where
  "counter_of xs = fold (\<lambda>x c. counter_add x 1 c) xs []"

text \<open>\<^verbatim>\<open>a / b\<close> raises on a zero divisor.\<close>

definition py_div :: "real \<Rightarrow> nat \<Rightarrow> py_error + real" where
  "py_div a b = (if b = 0 then Inl ZeroDivisionError else Inr (a / real b))"

record freshness_distribution =
  recent :: nat
  standard :: nat
  older :: nat

record averages =
  avg_category_match :: real
  avg_grade_match :: real
  avg_price_match :: real
  avg_freshness :: real
  avg_popularity :: real

text \<open>
  The result of \<^verbatim>\<open>explain_recommendations\<close>: either the dictionary with the single key
  \<^verbatim>\<open>explanation\<close>, or the full summary. The summary line is given by the number it prints.
\<close>

datatype explanation =
  Explanation string
| Summary nat "(string, real) py_dict" "(string, real) py_dict" "(string, real) py_dict"
    freshness_distribution averages

text \<open>
  The loop over the recommendations: \<^verbatim>\<open>float(rec.get("price", 0))\<close> raises \<^verbatim>\<open>ValueError\<close>
  on the empty string that stands for a missing price.
\<close>

fun explain_loop ::
  "recommendation list \<Rightarrow> string list \<times> string list \<times> string list \<times> freshness_distribution
     \<Rightarrow> py_error + string list \<times> string list \<times> string list \<times> freshness_distribution" where
  "explain_loop [] acc = Inr acc"
| "explain_loop (r # rs) (cats, grades, price_ranges, fresh) =
     (case r_price r of
        None \<Rightarrow> Inl ValueError
      | Some p \<Rightarrow>
          explain_loop rs
            (cats @ extract_categories (r_categories r),
             grades @ extract_grades (r_class_grades r),
             price_ranges @ [recommender_get_price_range p],
             (if r_freshness r \<ge> 3 / 2 then fresh\<lparr>recent := recent fresh + 1\<rparr>
              else if r_freshness r \<ge> 1 then fresh\<lparr>standard := standard fresh + 1\<rparr>
              else fresh\<lparr>older := older fresh + 1\<rparr>)))"

definition explain_recommendations :: "recommendation list \<Rightarrow> py_error + explanation" where
  "explain_recommendations recommendations =
     (if recommendations = [] then Inr (Explanation ''No recommendations available'')
      else
        (case explain_loop recommendations
                ([], [], [], \<lparr>recent = 0, standard = 0, older = 0\<rparr>) of
           Inl e \<Rightarrow> Inl e
         | Inr (cats, grades, price_ranges, fresh) \<Rightarrow>
             (let n = length recommendations
              in case py_div (sum_list (map r_category_match recommendations)) n of
                   Inl e \<Rightarrow> Inl e
                 | Inr a1 \<Rightarrow>
              (case py_div (sum_list (map r_grade_match recommendations)) n of
                   Inl e \<Rightarrow> Inl e
                 | Inr a2 \<Rightarrow>
              (case py_div (sum_list (map r_price_match recommendations)) n of
                   Inl e \<Rightarrow> Inl e
                 | Inr a3 \<Rightarrow>
              (case py_div (sum_list (map r_freshness recommendations)) n of
                   Inl e \<Rightarrow> Inl e
                 | Inr a4 \<Rightarrow>
              (case py_div (sum_list (map r_popularity recommendations)) n of
                   Inl e \<Rightarrow> Inl e
                 | Inr a5 \<Rightarrow>
                     Inr (Summary n
                            (dict_of (most_common 5 (counter_of cats)))
                            (dict_of (most_common 5 (counter_of grades)))
                            (counter_of price_ranges)
                            fresh
                            \<lparr> avg_category_match = a1, avg_grade_match = a2,
                              avg_price_match = a3, avg_freshness = a4,
                              avg_popularity = a5 \<rparr>))))))))"

section \<open>content\_based\_filtering/personalization\_algorithm.py\<close>

subsection \<open>Data\<close>

text \<open>
  The enhanced materials are indexed by \<^verbatim>\<open>str(material_id)\<close>; the recommender reads the
  five fields below with \<^verbatim>\<open>material[key]\<close>, which raises \<^verbatim>\<open>KeyError\<close> on a missing key.
\<close>

record cb_material =
  cb_title :: "string option"
  cb_category :: "string option"
  cb_class_grade :: "string option"
  cb_price :: "real option"
  cb_bestseller_rating :: "real option"

record negative_signals =
  bounced_from :: "string list option"
  removed_from_cart :: "string list option"

record interaction_history =
  purchases :: "string list option"
  favorites :: "string list option"
  negative_signals :: "negative_signals option"

text \<open>
  Of a user profile and of the preferences derived from it, the parts that decide which
  materials are known to the user. The material ids are given after \<^verbatim>\<open>str\<close>.
\<close>

record cb_user_profile =
  cb_interaction_history :: "interaction_history option"

record user_prefs =
  liked_material_ids :: "string list"
  disliked_material_ids :: "string list"

datatype factor =
  SimilarToLiked string real
| MatchesPreferences real
| CategoryMatch "string list" real
| SeasonalRelevance string real

record score_data =
  liked_material_score :: real
  preference_vector_score :: real
  categorical_score :: real
  seasonal_score :: real
  total_score :: real
  contribution_factors :: "factor list"

record cb_recommendation =
  cb_rec_material_id :: string
  cb_rec_title :: string
  cb_rec_category :: string
  cb_rec_class_grade :: string
  cb_rec_price :: real
  cb_rec_bestseller_rating :: real
  cb_rec_score :: real
  cb_rec_explanation :: "string list option"

subsection \<open>UserProfileAnalyzer\<close>

text \<open>
  \<^verbatim>\<open>_extract_material_preferences\<close>. The source collects the ids in a set and stores
  \<^verbatim>\<open>list(set)\<close>, whose order Python does not fix; the lists are read for membership only.
\<close>

definition extract_material_preferences :: "cb_user_profile \<Rightarrow> user_prefs \<Rightarrow> user_prefs" where
  "extract_material_preferences prof prefs =
     (case cb_interaction_history prof of
        None \<Rightarrow> prefs
      | Some history \<Rightarrow>
          prefs\<lparr> liked_material_ids :=
                   remdups (or_default (purchases history) [] @ or_default (favorites history) []),
                 disliked_material_ids :=
                   (case negative_signals history of
                      None \<Rightarrow> []
                    | Some neg_signals \<Rightarrow>
                        remdups (or_default (bounced_from neg_signals) []
                                  @ or_default (removed_from_cart neg_signals) [])) \<rparr>)"

text \<open>
  \<^verbatim>\<open>analyze_user_profiles\<close>, for the two lists above: every profile gets an entry, which
  starts with both lists empty.
\<close>

definition analyze_user_profiles ::
  "(string, cb_user_profile) py_dict \<Rightarrow> (string, user_prefs) py_dict" where
  "analyze_user_profiles user_profiles =
     map (\<lambda>(uid, prof).
            (uid, extract_material_preferences prof
                    \<lparr> liked_material_ids = [], disliked_material_ids = [] \<rparr>))
         user_profiles"

subsection \<open>ContentBasedRecommender\<close>

definition filter_known_materials ::
  "user_prefs \<Rightarrow> (string, score_data) py_dict \<Rightarrow> (string, score_data) py_dict" where
  "filter_known_materials prefs material_scores =
     filter (\<lambda>(mid, scores). mid \<notin> set (liked_material_ids prefs)
                              \<and> mid \<notin> set (disliked_material_ids prefs))
            material_scores"

text \<open>A loop that appends one record per item stops at the first item that raises.\<close>

fun collect :: "(py_error + 'a) list \<Rightarrow> py_error + 'a list" where
  "collect [] = Inr []"
| "collect (Inl e # rs) = Inl e"
| "collect (Inr x # rs) = (case collect rs of Inl e \<Rightarrow> Inl e | Inr xs \<Rightarrow> Inr (x # xs))"

definition popularity_explanation :: "string list" where
  "popularity_explanation = [''Beliebtes Material in dieser Kategorie'']"

definition popularity_record :: "string \<Rightarrow> cb_material \<Rightarrow> py_error + cb_recommendation" where
  "popularity_record mid m =
     (case (cb_title m, cb_category m, cb_class_grade m, cb_price m, cb_bestseller_rating m) of
        (Some t, Some c, Some g, Some p, Some b) \<Rightarrow>
          Inr \<lparr> cb_rec_material_id = mid, cb_rec_title = t, cb_rec_category = c,
                cb_rec_class_grade = g, cb_rec_price = p, cb_rec_bestseller_rating = b,
                cb_rec_score = 0, cb_rec_explanation = Some popularity_explanation \<rparr>
      | _ \<Rightarrow> Inl KeyError)"

definition get_popularity_based_recommendations ::
  "(string, cb_material) py_dict \<Rightarrow> int \<Rightarrow> py_error + cb_recommendation list" where
  "get_popularity_based_recommendations materials limit =
     (let sorted_materials =
            sorted_desc (\<lambda>(mid, m). or_default (cb_bestseller_rating m) 0) materials
      in collect (map (\<lambda>(mid, m). popularity_record mid m) (py_take limit sorted_materials)))"

definition scored_record ::
  "(string, cb_material) py_dict \<Rightarrow> (string \<Rightarrow> score_data \<Rightarrow> py_error + string list) \<Rightarrow> bool
     \<Rightarrow> string \<Rightarrow> score_data \<Rightarrow> py_error + cb_recommendation" where
  "scored_record materials generate_explanation include_explanation mid sd =
     (case map_of materials mid of
        None \<Rightarrow> Inl KeyError
      | Some m \<Rightarrow>
          (case (cb_title m, cb_category m, cb_class_grade m, cb_price m, cb_bestseller_rating m) of
             (Some t, Some c, Some g, Some p, Some b) \<Rightarrow>
               (let rec = \<lparr> cb_rec_material_id = mid, cb_rec_title = t, cb_rec_category = c,
                            cb_rec_class_grade = g, cb_rec_price = p,
                            cb_rec_bestseller_rating = b, cb_rec_score = total_score sd,
                            cb_rec_explanation = None \<rparr>
                in if include_explanation
                   then (case generate_explanation mid sd of
                           Inl e \<Rightarrow> Inl e
                         | Inr ex \<Rightarrow> Inr (rec\<lparr>cb_rec_explanation := Some ex\<rparr>))
                   else Inr rec)
           | _ \<Rightarrow> Inl KeyError))"

text \<open>
  \<^verbatim>\<open>get_recommendations\<close>. The four scoring methods rest on the TF-IDF vectors of an
  external library; their joint result, the dictionary \<^verbatim>\<open>material_scores\<close> they fill for
  a user, is the parameter \<open>score_methods\<close>, and the text of an explanation is the
  parameter \<open>generate_explanation\<close>. Everything after the scoring is modelled.
\<close>

definition get_recommendations ::
  "(string, user_prefs) py_dict \<Rightarrow> (string, cb_material) py_dict
     \<Rightarrow> (string \<Rightarrow> (string, score_data) py_dict)
     \<Rightarrow> (string \<Rightarrow> score_data \<Rightarrow> py_error + string list)
     \<Rightarrow> string \<Rightarrow> int \<Rightarrow> bool \<Rightarrow> py_error + cb_recommendation list" where
  "get_recommendations user_content_preferences materials score_methods generate_explanation
       uid limit include_explanation =
     (case map_of user_content_preferences uid of
        None \<Rightarrow> get_popularity_based_recommendations materials limit
      | Some prefs \<Rightarrow>
          (let material_scores = score_methods uid;
               filtered_scores = filter_known_materials prefs material_scores;
               sorted_materials = sorted_desc (\<lambda>(mid, sd). total_score sd) filtered_scores
           in collect (map (\<lambda>(mid, sd). scored_record materials generate_explanation
                                           include_explanation mid sd)
                           (py_take limit sorted_materials))))"

section \<open>Sample data\<close>

text \<open>
  Small repositories, catalogues and lists on which the theorems below are instantiated.
\<close>

definition no_events :: event_data where
  "no_events = (\<lambda>ty. [])"

definition blank_event :: event where
  "blank_event = \<lparr> e_user_id = None, e_material_id = None, e_time = None, e_date = None,
     e_last_search_date = None, e_categories = None, e_class_grades = None,
     e_price_euro = None, e_search_keyword = None, e_search_frequency = None \<rparr>"

definition bare_material :: "string \<Rightarrow> material" where
  "bare_material mid = \<lparr> material_id = mid, material_title = None, categories = None,
     class_grades = None, author_id = None, price = None, bestseller_rating = None,
     created_at = None, updated_at = None \<rparr>"

definition math_material :: "string \<Rightarrow> material" where
  "math_material mid = (bare_material mid)
     \<lparr> categories := Some ''Math'', class_grades := Some ''3'', author_id := Some ''a1'',
       price := Some 1, bestseller_rating := Some 900 \<rparr>"

definition cold_profile_of :: "string \<Rightarrow> profile" where
  "cold_profile_of uid = \<lparr> user_id = uid, preferred_categories = [], preferred_grades = [],
       price_preference = ''medium'', category_weights = [], grade_weights_of = [],
       price_range_weights = [], event_counts = map (\<lambda>ty. (ty, 0)) event_files,
       profile_generation_time = 0 \<rparr>"



definition repo_one_author :: repository where
  "repo_one_author = \<lparr> all_events = no_events,
     materials_list = [math_material ''m1'', math_material ''m2'', math_material ''m3'',
                       math_material ''m4'', math_material ''m5''] \<rparr>"

definition favorite_event :: event where
  "favorite_event = blank_event \<lparr> e_user_id := Some ''u'', e_material_id := Some ''m1'' \<rparr>"

definition repo_favorite :: repository where
  "repo_favorite = \<lparr> all_events = no_events (AddToFavorites := [favorite_event]),
     materials_list = [math_material ''m1''] \<rparr>"

definition purchase_event :: event where
  "purchase_event = blank_event \<lparr> e_user_id := Some ''u'', e_material_id := Some ''m1'' \<rparr>"

definition repo_purchase :: repository where
  "repo_purchase = \<lparr> all_events = no_events (Purchases := [purchase_event]),
     materials_list = [math_material ''m1'', math_material ''m2''] \<rparr>"

definition search_event :: event where
  "search_event = blank_event \<lparr> e_user_id := Some ''u'', e_last_search_date := Some (Stamp 0),
     e_search_keyword := Some ''math'' \<rparr>"

definition repo_search :: repository where
  "repo_search = \<lparr> all_events = no_events (Searches := [search_event]),
     materials_list = [math_material ''m1''] \<rparr>"

definition scored_sample :: "string \<Rightarrow> real \<Rightarrow> scored" where
  "scored_sample mid sc = \<lparr> s_material_id = mid, s_material = math_material mid, s_score = sc,
     s_category_score = 0, s_grade_score = 0, s_price_score = 0, s_freshness_factor = 1,
     s_bestseller_score = 0, s_is_fallback = False \<rparr>"

definition top_five :: "scored list" where
  "top_five = [scored_sample ''m1'' 5, scored_sample ''m2'' 4, scored_sample ''m3'' 3,
               scored_sample ''m4'' 2, scored_sample ''m5'' 1]"



definition cb_sample :: "string \<Rightarrow> real \<Rightarrow> cb_material" where
  "cb_sample title rating = \<lparr> cb_title = Some title, cb_category = Some ''Math'',
     cb_class_grade = Some ''3'', cb_price = Some 1, cb_bestseller_rating = Some rating \<rparr>"

definition cb_catalog :: "(string, cb_material) py_dict" where
  "cb_catalog = [(''B'', cb_sample ''Recent'' 800), (''A'', cb_sample ''Old'' 900)]"

definition cb_history :: interaction_history where
  "cb_history = \<lparr> purchases = Some [''A''], favorites = None, negative_signals = None \<rparr>"

definition cb_profiles :: "(string, cb_user_profile) py_dict" where
  "cb_profiles = [(''u'', \<lparr> cb_interaction_history = Some cb_history \<rparr>)]"

definition cb_scores :: "string \<Rightarrow> (string, score_data) py_dict" where
  "cb_scores uid = map (\<lambda>mid. (mid, \<lparr> liked_material_score = 0, preference_vector_score = 0,
      categorical_score = 1, seasonal_score = 0, total_score = 1, contribution_factors = [] \<rparr>))
      [''B'', ''A'']"

definition no_explanation :: "string \<Rightarrow> score_data \<Rightarrow> py_error + string list" where
  "no_explanation mid sd = Inr []"


definition rec_B :: cb_recommendation where
  "rec_B = \<lparr> cb_rec_material_id = ''B'', cb_rec_title = ''Recent'', cb_rec_category = ''Math'',
     cb_rec_class_grade = ''3'', cb_rec_price = 1, cb_rec_bestseller_rating = 800,
     cb_rec_score = 0, cb_rec_explanation = Some popularity_explanation \<rparr>"

section \<open>Rounding to a double\<close>

lemma rhe_int: "round_half_even (of_int n) = n"
  by (simp add: round_half_even_def)

lemma rhe_lower: "q - 1 / 2 \<le> of_int (round_half_even q)"
  unfolding round_half_even_def Let_def by (auto; linarith)

lemma rhe_upper: "of_int (round_half_even q) \<le> q + 1 / 2"
  unfolding round_half_even_def Let_def by (auto; linarith)

lemma rhe_small: "0 \<le> q \<Longrightarrow> q \<le> 1 / 2 \<Longrightarrow> round_half_even q = 0"
proof -
  assume a: "0 \<le> q" "q \<le> 1 / 2"
  then have f: "\<lfloor>q\<rfloor> = 0" by (simp add: floor_eq_iff)
  show ?thesis using a by (simp add: round_half_even_def f)
qed

lemma rhe_pos: "1 / 2 < q \<Longrightarrow> 1 \<le> round_half_even q"
proof -
  assume a: "1 / 2 < q"
  have "q - 1 / 2 \<le> of_int (round_half_even q)" by (rule rhe_lower)
  with a have "(0::real) < of_int (round_half_even q)" by linarith
  then show ?thesis by simp
qed

lemma rhe_nonneg: "0 \<le> q \<Longrightarrow> 0 \<le> round_half_even q"
proof -
  assume a: "0 \<le> q"
  have "q - 1 / 2 \<le> of_int (round_half_even q)" by (rule rhe_lower)
  with a have "(- 1::real) < of_int (round_half_even q)" by linarith
  then have "- 1 < round_half_even q" by linarith
  then show ?thesis by simp
qed

lemma rhe_le_int: "q \<le> of_int N \<Longrightarrow> round_half_even q \<le> N"
proof (cases "q = of_int N")
  case True
  then show ?thesis by (simp add: rhe_int)
next
  case False
  assume "q \<le> of_int N"
  with False have lt: "q < of_int N" by simp
  then have f: "\<lfloor>q\<rfloor> < N" by (simp add: floor_less_iff)
  have "round_half_even q \<le> \<lfloor>q\<rfloor> + 1"
    by (simp add: round_half_even_def Let_def)
  with f show ?thesis by linarith
qed

lemma ulp_pos: "0 < double_ulp r"
  by (simp add: double_ulp_def)

lemma ulp_subnormal: "0 < r \<Longrightarrow> r < 2 powr (- 1022) \<Longrightarrow> double_ulp r = 2 powr (- 1074)"
proof -
  assume a: "0 < r" "r < 2 powr (- 1022)"
  then have "log 2 r < - 1022" by (simp add: log_less_iff)
  then have "\<lfloor>log 2 r\<rfloor> < - 1022" by (simp add: floor_less_iff)
  then have "max \<lfloor>log 2 r\<rfloor> (- 1022) = - 1022" by simp
  then show ?thesis by (simp add: double_ulp_def)
qed

lemma ulp_normal:
  assumes "2 powr (- 1022) \<le> r"
  shows "double_ulp r = 2 powr (of_int \<lfloor>log 2 r\<rfloor> - 52) \<and> 2 powr (of_int \<lfloor>log 2 r\<rfloor>) \<le> r
         \<and> - 1022 \<le> \<lfloor>log 2 r\<rfloor>"
proof -
  have r: "0 < r" using assms by (smt (verit) powr_gt_zero)
  then have "- 1022 \<le> log 2 r" using assms by (simp add: le_log_iff)
  then have e: "- 1022 \<le> \<lfloor>log 2 r\<rfloor>" by (simp add: le_floor_iff)
  then have "max \<lfloor>log 2 r\<rfloor> (- 1022) = \<lfloor>log 2 r\<rfloor>" by simp
  then have u: "double_ulp r = 2 powr (of_int \<lfloor>log 2 r\<rfloor> - 52)" by (simp add: double_ulp_def)
  have "2 powr (of_int \<lfloor>log 2 r\<rfloor>) \<le> r"
    using floor_log_eq_powr_iff [of r 2 "\<lfloor>log 2 r\<rfloor>"] r by simp
  with u e show ?thesis by simp
qed

lemma ulp_le:
  assumes "2 powr (- 1022) \<le> r"
  shows "double_ulp r \<le> r * 2 powr (- 52)"
proof -
  from ulp_normal [OF assms] have u: "double_ulp r = 2 powr (of_int \<lfloor>log 2 r\<rfloor> - 52)"
    and b: "2 powr (of_int \<lfloor>log 2 r\<rfloor>) \<le> r" by simp_all
  have "double_ulp r = 2 powr (of_int \<lfloor>log 2 r\<rfloor>) * 2 powr (- 52)"
    unfolding u using powr_add [of "2::real" "of_int \<lfloor>log 2 r\<rfloor>" "- 52"] by simp
  also have "\<dots> \<le> r * 2 powr (- 52)"
    using b by (simp add: mult_right_mono)
  finally show ?thesis .
qed

lemma half_ulp: "2 powr (- 52) / 2 = (2::real) powr (- 53)"
  by (simp add: powr_minus)

lemma round_pos_lower:
  assumes "2 powr (- 1022) \<le> r"
  shows "r * (1 - 2 powr (- 53)) \<le> round_pos r"
proof -
  have up: "0 < double_ulp r" by (rule ulp_pos)
  have "r / double_ulp r - 1 / 2 \<le> of_int (round_half_even (r / double_ulp r))"
    by (rule rhe_lower)
  then have "(r / double_ulp r - 1 / 2) * double_ulp r \<le> round_pos r"
    unfolding round_pos_def using up by (simp add: mult_right_mono)
  moreover have "(r / double_ulp r - 1 / 2) * double_ulp r = r - double_ulp r / 2"
    using up by (simp add: left_diff_distrib)
  ultimately have "r - double_ulp r / 2 \<le> round_pos r"
    by simp
  moreover have "double_ulp r / 2 \<le> r * 2 powr (- 53)"
    using ulp_le [OF assms] half_ulp by (simp add: field_simps)
  ultimately show ?thesis by (simp add: algebra_simps)
qed

lemma round_pos_upper:
  assumes "2 powr (- 1022) \<le> r"
  shows "round_pos r \<le> r * (1 + 2 powr (- 53))"
proof -
  have up: "0 < double_ulp r" by (rule ulp_pos)
  have "of_int (round_half_even (r / double_ulp r)) \<le> r / double_ulp r + 1 / 2"
    by (rule rhe_upper)
  then have "round_pos r \<le> (r / double_ulp r + 1 / 2) * double_ulp r"
    unfolding round_pos_def using up by (simp add: mult_right_mono)
  moreover have "(r / double_ulp r + 1 / 2) * double_ulp r = r + double_ulp r / 2"
    using up by (simp add: distrib_right)
  ultimately have "round_pos r \<le> r + double_ulp r / 2"
    by simp
  moreover have "double_ulp r / 2 \<le> r * 2 powr (- 53)"
    using ulp_le [OF assms] half_ulp by (simp add: field_simps)
  ultimately show ?thesis by (simp add: algebra_simps)
qed

lemma round_pos_nonneg: "0 < r \<Longrightarrow> 0 \<le> round_pos r"
  using ulp_pos [of r] by (simp add: round_pos_def rhe_nonneg)

lemma round_pos_underflow:
  assumes "0 < r" and "r \<le> 2 powr (- 1075)"
  shows "round_pos r = 0"
proof -
  have "(2::real) powr (- 1075) < 2 powr (- 1022)" by simp
  with assms have lt: "r < 2 powr (- 1022)" by linarith
  have u: "double_ulp r = 2 powr (- 1074)" by (rule ulp_subnormal [OF assms(1) lt])
  have "r / 2 powr (- 1074) \<le> 2 powr (- 1075) / 2 powr (- 1074)"
    using assms(2) by (simp add: divide_right_mono)
  also have "\<dots> = (1 / 2 :: real)"
    by (simp add: powr_diff [symmetric])
  finally have q: "r / double_ulp r \<le> 1 / 2" by (simp add: u)
  have "0 \<le> r / double_ulp r" using assms(1) ulp_pos [of r] by simp
  from rhe_small [OF this q] show ?thesis by (simp add: round_pos_def)
qed

lemma round_pos_positive:
  assumes "2 powr (- 1075) < r"
  shows "0 < round_pos r"
proof -
  have r: "0 < r" using assms by (smt (verit) powr_gt_zero)
  have "1 / 2 < r / double_ulp r"
  proof (cases "r < 2 powr (- 1022)")
    case True
    have u: "double_ulp r = 2 powr (- 1074)" by (rule ulp_subnormal [OF r True])
    have "(1 / 2 :: real) = 2 powr (- 1075) / 2 powr (- 1074)"
      by (simp add: powr_diff [symmetric])
    also have "\<dots> < r / 2 powr (- 1074)"
      using assms by (simp add: divide_strict_right_mono)
    finally show ?thesis by (simp add: u)
  next
    case False
    then have n: "2 powr (- 1022) \<le> r" by simp
    from ulp_le [OF n] have le: "double_ulp r \<le> r * 2 powr (- 52)" .
    have "(2::real) powr (- 52) < 2" 
      by (simp add: powr_minus)
    then have "r * 2 powr (- 52) < r * 2" using r
      by (rule mult_strict_left_mono)
    with le have "double_ulp r < r * 2" by linarith
    then show ?thesis using ulp_pos [of r] by (simp add: field_simps)
  qed
  from rhe_pos [OF this] have "(0::real) < of_int (round_half_even (r / double_ulp r))" by simp
  then show ?thesis using ulp_pos [of r] by (simp add: round_pos_def)
qed

lemma round_pos_le_one:
  assumes "0 < r" and "r \<le> 1"
  shows "round_pos r \<le> 1"
proof -
  define e where "e = max \<lfloor>log 2 r\<rfloor> (- 1022)"
  have "log 2 r \<le> 0" using assms by simp
  then have "\<lfloor>log 2 r\<rfloor> \<le> 0" by (simp add: floor_le_iff)
  then have e0: "e \<le> 0" by (simp add: e_def)
  have u: "double_ulp r = 2 powr (of_int e - 52)" by (simp add: double_ulp_def e_def)
  define N :: int where "N = 2 ^ nat (52 - e)"
  have N: "(2::real) powr (52 - of_int e) = of_int N"
    using powr_real_of_int [of "2::real" "52 - e"] e0 by (simp add: N_def)
  have "double_ulp r * 2 powr (52 - of_int e) = 1"
    unfolding u using powr_add [of "2::real" "of_int e - 52" "52 - of_int e"] by simp
  then have one: "double_ulp r * of_int N = 1" by (simp only: N)
  have up: "0 < double_ulp r" by (rule ulp_pos)
  from one up have inv: "1 / double_ulp r = of_int N" by (simp add: field_simps)
  have "r / double_ulp r \<le> 1 / double_ulp r"
    using assms(2) up by (simp add: divide_right_mono)
  then have "r / double_ulp r \<le> of_int N" by (simp only: inv)
  from rhe_le_int [OF this]
  have "(of_int (round_half_even (r / double_ulp r)) :: real) \<le> of_int N" by simp
  then have "round_pos r \<le> of_int N * double_ulp r"
    unfolding round_pos_def using up by (simp add: mult_right_mono)
  with one show ?thesis by (simp add: mult.commute)
qed

lemma round_pos_pow2:
  assumes "- 1022 \<le> k"
  shows "round_pos (2 powr of_int k) = 2 powr of_int k"
proof -
  define M :: int where "M = 2 ^ 52"
  define v :: real where "v = 2 powr (of_int k - 52)"
  have v0: "0 < v" by (simp add: v_def)
  have "max \<lfloor>log 2 (2 powr of_int k)\<rfloor> (- 1022) = k" using assms by simp
  then have u: "double_ulp (2 powr of_int k) = v"
    by (simp add: double_ulp_def v_def)
  have p52: "(2::real) powr 52 = of_int M" by (simp add: M_def)
  have split: "(2::real) powr of_int k = of_int M * v"
    unfolding v_def p52 [symmetric]
    using powr_add [of "2::real" 52 "of_int k - 52"] by simp
  then have q: "2 powr of_int k / v = of_int M" using v0 by simp
  have "round_pos (2 powr of_int k) = of_int (round_half_even (of_int M)) * v"
    unfolding round_pos_def u q ..
  then show ?thesis by (simp only: rhe_int split)
qed

lemma round_pos_one: "round_pos 1 = 1"
  using round_pos_pow2 [of 0] by simp

lemma round_pos_half: "round_pos (1 / 2) = 1 / 2"
  using round_pos_pow2 [of "- 1"] by simp

lemma round_pos_1075: "round_pos 1075 = 1075"
proof -
  have "\<lfloor>log 2 (1075::real)\<rfloor> = 10"
    using floor_log_eq_powr_iff [of "1075::real" 2 10] by simp
  then have u: "double_ulp 1075 = 2 powr (- 42)" by (simp add: double_ulp_def)
  have p: "(2::real) powr (- 42) = 1 / 2 ^ 42" by (simp add: powr_minus field_simps)
  have "(1075::real) / double_ulp 1075 = of_int (1075 * 2 ^ 42)" by (simp add: u p)
  then have "round_pos 1075 = of_int (1075 * 2 ^ 42) * double_ulp 1075"
    unfolding round_pos_def by (simp only: rhe_int)
  then show ?thesis by (simp add: u p)
qed

lemma tiny_le_30th: "(2::real) powr (- 1022) \<le> 1 / 30"
proof -
  have "(2::real) powr (- 1022) \<le> 2 powr (- 5)" by simp
  also have "\<dots> \<le> 1 / 30" by (simp add: powr_minus)
  finally show ?thesis .
qed

lemma eps_small: "(2::real) powr (- 53) \<le> 1 / 1048576"
proof -
  have "(2::real) powr (- 53) \<le> 2 powr (- 20)" by simp
  also have "\<dots> = 1 / 1048576" by (simp add: powr_minus)
  finally show ?thesis .
qed

lemma math_pow_two: "math_pow 2 x = round_pos (2 powr x)"
  by (simp add: math_pow_def round_double_def)

lemma exponent_zero: "float_div 0 30 = 0"
  by (simp add: float_div_def round_double_def)

lemma exponent_neg:
  "0 < d \<Longrightarrow> float_div (- real_of_int d) 30 = - round_pos (real_of_int d / 30)"
  by (simp add: float_div_def round_double_def)

lemma exponent_nonpos: "0 \<le> d \<Longrightarrow> float_div (- real_of_int d) 30 \<le> 0"
proof (cases "d = 0")
  case True
  then show ?thesis by (simp add: exponent_zero)
next
  case False
  assume "0 \<le> d"
  with False have d: "0 < d" by simp
  then have "0 \<le> round_pos (real_of_int d / 30)" by (simp add: round_pos_nonneg)
  with exponent_neg [OF d] show ?thesis by simp
qed

lemma quotient_normal: "0 < d \<Longrightarrow> 2 powr (- 1022) \<le> real_of_int d / 30"
proof -
  assume "0 < d"
  then have "1 \<le> real_of_int d" by simp
  then have "1 / 30 \<le> real_of_int d / 30" by simp
  with tiny_le_30th show ?thesis by linarith
qed

lemma exponent_above:
  assumes "0 \<le> d" and "d < 32250"
  shows "- 1075 < float_div (- real_of_int d) 30"
proof (cases "d = 0")
  case True
  then show ?thesis by (simp add: exponent_zero)
next
  case False
  with assms have d: "0 < d" by simp
  define r where "r = real_of_int d / 30"
  define c :: real where "c = 2 powr (- 53)"
  have r0: "0 \<le> r" using d by (simp add: r_def)
  have "real_of_int d \<le> 32249" using assms(2) by simp
  then have rb: "r \<le> 32249 / 30" by (simp add: r_def)
  have c0: "0 \<le> c" by (simp add: c_def)
  have cb: "c \<le> 1 / 1048576" unfolding c_def by (rule eps_small)
  have "round_pos r \<le> r * (1 + c)"
    unfolding r_def c_def by (rule round_pos_upper [OF quotient_normal [OF d]])
  also have "\<dots> \<le> (32249 / 30) * (1 + 1 / 1048576)"
    using rb cb r0 c0 by (intro mult_mono) simp_all
  also have "\<dots> < 1075" by simp
  finally have "round_pos r < 1075" .
  with exponent_neg [OF d] show ?thesis by (simp add: r_def)
qed

lemma exponent_below:
  assumes "32250 \<le> d"
  shows "float_div (- real_of_int d) 30 \<le> - 1075"
proof (cases "d = 32250")
  case True
  have "float_div (- real_of_int 32250) 30 = - round_pos (real_of_int 32250 / 30)"
    by (rule exponent_neg) simp
  then show ?thesis using True by (simp add: round_pos_1075)
next
  case False
  with assms have big: "32251 \<le> d" by simp
  then have d: "0 < d" by simp
  define r where "r = real_of_int d / 30"
  define c :: real where "c = 2 powr (- 53)"
  have "32251 \<le> real_of_int d" using big by simp
  then have rb: "32251 / 30 \<le> r" by (simp add: r_def)
  have cb: "c \<le> 1 / 1048576" unfolding c_def by (rule eps_small)
  have "(1075::real) < (32251 / 30) * (1 - 1 / 1048576)" by simp
  also have "\<dots> \<le> r * (1 - c)"
    using rb cb by (intro mult_mono) simp_all
  also have "\<dots> \<le> round_pos r"
    unfolding r_def c_def by (rule round_pos_lower [OF quotient_normal [OF d]])
  finally have "1075 < round_pos r" .
  with exponent_neg [OF d] show ?thesis by (simp add: r_def)
qed

lemma decay_value_zero_days: "math_pow 2 (float_div (- real_of_int 0) 30) = 1"
  by (simp add: exponent_zero math_pow_two round_pos_one)

lemma decay_value_thirty_days: "math_pow 2 (float_div (- real_of_int 30) 30) = 1 / 2"
proof -
  have "float_div (- real_of_int 30) 30 = - round_pos (real_of_int 30 / 30)"
    by (rule exponent_neg) simp
  then have x: "float_div (- real_of_int 30) 30 = - 1" by (simp add: round_pos_one)
  have "(2::real) powr (- 1) = 1 / 2" by simp
  then show ?thesis by (simp only: x math_pow_two round_pos_half)
qed

lemma decay_value_range:
  assumes "0 \<le> d"
  shows "0 \<le> math_pow 2 (float_div (- real_of_int d) 30)
         \<and> math_pow 2 (float_div (- real_of_int d) 30) \<le> 1"
proof -
  define x where "x = float_div (- real_of_int d) 30"
  have "x \<le> 0" unfolding x_def by (rule exponent_nonpos [OF assms])
  then have "(2::real) powr x \<le> 2 powr 0" by (intro powr_mono) simp_all
  then have le: "(2::real) powr x \<le> 1" by simp
  have pos: "0 < (2::real) powr x" by simp
  from round_pos_nonneg [OF pos] round_pos_le_one [OF pos le]
  show ?thesis by (simp add: math_pow_two x_def)
qed

lemma decay_value_positive:
  assumes "0 \<le> d" and "d < 32250"
  shows "0 < math_pow 2 (float_div (- real_of_int d) 30)"
proof -
  define x where "x = float_div (- real_of_int d) 30"
  have "- 1075 < x" unfolding x_def by (rule exponent_above [OF assms])
  then have "(2::real) powr (- 1075) < 2 powr x" by simp
  from round_pos_positive [OF this] show ?thesis by (simp add: math_pow_two x_def)
qed

lemma decay_value_underflow:
  assumes "32250 \<le> d"
  shows "math_pow 2 (float_div (- real_of_int d) 30) = 0"
proof -
  define x where "x = float_div (- real_of_int d) 30"
  have "x \<le> - 1075" unfolding x_def by (rule exponent_below [OF assms])
  then have le: "(2::real) powr x \<le> 2 powr (- 1075)" by simp
  have pos: "0 < (2::real) powr x" by simp
  from round_pos_underflow [OF pos le] show ?thesis by (simp add: math_pow_two x_def)
qed

section \<open>Time decay\<close>

lemma timedelta_days_neg: "d < 0 \<Longrightarrow> timedelta_days d < 0"
  by (simp add: timedelta_days_def usec_per_day_def div_neg_pos_less0)

lemma timedelta_days_of_days: "timedelta_days (days n) = n"
  by (simp add: timedelta_days_def days_def usec_per_day_def)

lemma decay_of_days:
  "calculate_time_decay now s r =
     math_pow 2 (float_div (- real_of_int (max 0 (timedelta_days
        ((case r of None \<Rightarrow> now | Some x \<Rightarrow> x) - parse_datetime now s)))) 30)"
  by (simp add: calculate_time_decay_def Let_def half_life_def)

lemma decay_stamp:
  "calculate_time_decay now (Stamp t) (Some r) =
     math_pow 2 (float_div (- real_of_int (max 0 (timedelta_days (r - t)))) 30)"
  by (simp add: decay_of_days parse_datetime_def)

lemma decay_range:
  "0 \<le> calculate_time_decay now s r \<and> calculate_time_decay now s r \<le> 1"
  unfolding decay_of_days by (rule decay_value_range) simp

text \<open>
  Claim C6, as stated, fails in its last part: the factor does not always lie in the
  interval that excludes 0. For an event 46328 whole days before the reference time (1
  January 1900 seen from 2026) the power underflows and the function returns exactly 0.
\<close>

theorem calculate_time_decay_underflow_counterexample:
  "calculate_time_decay 0 (Stamp 0) (Some (days 46328)) = 0"
proof -
  have "max 0 (timedelta_days (days 46328 - 0)) = 46328"
    by (simp add: timedelta_days_of_days)
  then have "calculate_time_decay 0 (Stamp 0) (Some (days 46328))
      = math_pow 2 (float_div (- real_of_int 46328) 30)"
    by (simp only: decay_stamp)
  also have "\<dots> = 0" by (rule decay_value_underflow) simp
  finally show ?thesis .
qed

text \<open>
  Claim C6, amended. \<^verbatim>\<open>calculate_time_decay\<close> returns the double \<^verbatim>\<open>math.pow\<close> gives for 2
  to the power of minus the elapsed whole days over 30, the elapsed days clamped at zero:
  an event exactly 30 days before the reference time weighs exactly 1/2, an event at the
  reference time weighs 1, an event after the reference time weighs 1. For every input
  the factor lies between 0 and 1, both included; it is positive while fewer than 32250
  whole days have elapsed, and exactly 0 from 32250 elapsed days on.
\<close>

theorem calculate_time_decay_half_life:
  "calculate_time_decay now (Stamp t) (Some r)
     = math_pow 2 (float_div (- real_of_int (max 0 (timedelta_days (r - t)))) 30)
   \<and> calculate_time_decay now (Stamp t) (Some (t + days 30)) = 1 / 2
   \<and> calculate_time_decay now (Stamp t) (Some t) = 1
   \<and> (r < t \<longrightarrow> calculate_time_decay now (Stamp t) (Some r) = 1)
   \<and> 0 \<le> calculate_time_decay now s ref \<and> calculate_time_decay now s ref \<le> 1
   \<and> (timedelta_days (r - t) < 32250 \<longrightarrow> 0 < calculate_time_decay now (Stamp t) (Some r))
   \<and> (32250 \<le> timedelta_days (r - t) \<longrightarrow> calculate_time_decay now (Stamp t) (Some r) = 0)"
proof -
  have a: "calculate_time_decay now (Stamp t) (Some r)
     = math_pow 2 (float_div (- real_of_int (max 0 (timedelta_days (r - t)))) 30)"
    by (rule decay_stamp)
  have "max 0 (timedelta_days (t + days 30 - t)) = 30"
    by (simp add: timedelta_days_of_days)
  then have "calculate_time_decay now (Stamp t) (Some (t + days 30))
      = math_pow 2 (float_div (- real_of_int 30) 30)"
    by (simp only: decay_stamp)
  then have b: "calculate_time_decay now (Stamp t) (Some (t + days 30)) = 1 / 2"
    by (simp only: decay_value_thirty_days)
  have zero: "math_pow 2 (float_div (- real_of_int 0) 30) = 1"
    by (rule decay_value_zero_days)
  have "max 0 (timedelta_days (t - t)) = 0" by (simp add: timedelta_days_def)
  then have "calculate_time_decay now (Stamp t) (Some t)
      = math_pow 2 (float_div (- real_of_int 0) 30)"
    by (simp only: decay_stamp)
  then have c: "calculate_time_decay now (Stamp t) (Some t) = 1"
    by (simp only: zero)
  have d: "r < t \<longrightarrow> calculate_time_decay now (Stamp t) (Some r) = 1"
  proof
    assume "r < t"
    then have "timedelta_days (r - t) < 0" by (simp add: timedelta_days_neg)
    then have "max 0 (timedelta_days (r - t)) = 0" by simp
    then have "calculate_time_decay now (Stamp t) (Some r)
        = math_pow 2 (float_div (- real_of_int 0) 30)"
      by (simp only: decay_stamp)
    then show "calculate_time_decay now (Stamp t) (Some r) = 1" by (simp only: zero)
  qed
  have e: "timedelta_days (r - t) < 32250 \<longrightarrow> 0 < calculate_time_decay now (Stamp t) (Some r)"
  proof
    assume "timedelta_days (r - t) < 32250"
    then have "max 0 (timedelta_days (r - t)) < 32250" by simp
    then show "0 < calculate_time_decay now (Stamp t) (Some r)"
      unfolding decay_stamp by (intro decay_value_positive) simp_all
  qed
  have f: "32250 \<le> timedelta_days (r - t) \<longrightarrow> calculate_time_decay now (Stamp t) (Some r) = 0"
  proof
    assume "32250 \<le> timedelta_days (r - t)"
    then have "32250 \<le> max 0 (timedelta_days (r - t))" by simp
    then show "calculate_time_decay now (Stamp t) (Some r) = 0"
      unfolding decay_stamp by (rule decay_value_underflow)
  qed
  from a b c d e f decay_range [of now s ref] show ?thesis by blast
qed

theorem calculate_time_decay_half_life_witness:
  "(0::int) < 1 \<and> calculate_time_decay 5 (Stamp 1) (Some 0) = 1
   \<and> calculate_time_decay 5 (Stamp 0) (Some (days 30)) = 1 / 2
   \<and> timedelta_days (days 30 - 0) < 32250
   \<and> 0 < calculate_time_decay 5 (Stamp 0) (Some (days 30))
   \<and> 32250 \<le> timedelta_days (days 46328 - 0)
   \<and> calculate_time_decay 5 (Stamp 0) (Some (days 46328)) = 0"
proof -
  have h: "(0::int) < 1" by simp
  have p: "timedelta_days (days 30 - 0) < 32250" by (simp add: timedelta_days_of_days)
  have q: "32250 \<le> timedelta_days (days 46328 - 0)" by (simp add: timedelta_days_of_days)
  from calculate_time_decay_half_life [of 5 1 0 Empty None] h
  have a: "calculate_time_decay 5 (Stamp 1) (Some 0) = 1" by blast
  from calculate_time_decay_half_life [of 5 0 0 Empty None]
  have "calculate_time_decay 5 (Stamp 0) (Some (0 + days 30)) = 1 / 2" by blast
  then have b: "calculate_time_decay 5 (Stamp 0) (Some (days 30)) = 1 / 2" by simp
  from calculate_time_decay_half_life [of 5 0 "days 30" Empty None] p
  have c: "0 < calculate_time_decay 5 (Stamp 0) (Some (days 30))" by blast
  from calculate_time_decay_half_life [of 5 0 "days 46328" Empty None] q
  have d: "calculate_time_decay 5 (Stamp 0) (Some (days 46328)) = 0" by blast
  from h a b p c q d show ?thesis by blast
qed

section \<open>Price buckets\<close>

text \<open>
  Claim C7. The bucketing function maps 0 to free, 2.00 to low, 2.01 to medium, 7.00 to
  medium and 7.01 to high; the recommender's copy is the same function; on non-negative
  prices each bucket is exactly one of four disjoint ranges that cover them; and the
  bucket grows with the price in the order free, low, medium, high.
\<close>

theorem price_range_buckets:
  "get_price_range 0 = ''free'' \<and> get_price_range 2 = ''low''
   \<and> get_price_range (201 / 100) = ''medium'' \<and> get_price_range 7 = ''medium''
   \<and> get_price_range (701 / 100) = ''high''
   \<and> recommender_get_price_range p = get_price_range p
   \<and> (0 \<le> p \<longrightarrow>
        (get_price_range p = ''free'' \<longleftrightarrow> p = 0)
      \<and> (get_price_range p = ''low'' \<longleftrightarrow> 0 < p \<and> p \<le> 2)
      \<and> (get_price_range p = ''medium'' \<longleftrightarrow> 2 < p \<and> p \<le> 7)
      \<and> (get_price_range p = ''high'' \<longleftrightarrow> 7 < p))
   \<and> (0 \<le> p \<and> p \<le> q \<longrightarrow>
        (\<exists>i j. index_of (get_price_range p) range_order = Some i
             \<and> index_of (get_price_range q) range_order = Some j \<and> i \<le> j))"
  by (simp add: get_price_range_def recommender_get_price_range_def range_order_def)

theorem price_range_buckets_witness:
  "(0::real) \<le> 1 \<and> (1::real) \<le> 3 \<and> get_price_range 1 = ''low'' \<and> get_price_range 3 = ''medium''
   \<and> index_of (get_price_range 1) range_order = Some 1
   \<and> index_of (get_price_range 3) range_order = Some 2"
  using price_range_buckets [of 1 3] price_range_buckets [of 3 3]
  by (simp add: range_order_def)

text \<open>
  Claim C9. On every negative price both copies of the bucketing function return high:
  no earlier branch matches, and the function has a value on every real input.
\<close>

theorem negative_price_is_high:
  "p < 0 \<Longrightarrow> get_price_range p = ''high'' \<and> recommender_get_price_range p = ''high''"
  by (simp add: get_price_range_def recommender_get_price_range_def)

theorem negative_price_is_high_witness:
  "(- 1 :: real) < 0 \<and> get_price_range (- 1) = ''high''
   \<and> recommender_get_price_range (- 1) = ''high''"
  using negative_price_is_high [of "- 1"] by simp

section \<open>Explanations\<close>

lemma explain_loop_no_zero_division: "explain_loop rs acc \<noteq> Inl ZeroDivisionError"
proof (induction rs arbitrary: acc)
  case Nil
  then show ?case by simp
next
  case (Cons r rs)
  obtain cats grades prs fresh where acc: "acc = (cats, grades, prs, fresh)"
    by (cases acc) auto
  show ?case
    unfolding acc using Cons.IH by (cases "r_price r") simp_all
qed

lemma py_div_pos: "0 < n \<Longrightarrow> py_div a n = Inr (a / real n)"
  by (simp add: py_div_def)

text \<open>
  Claim C10. On the empty list \<^verbatim>\<open>explain_recommendations\<close> returns the fixed record with
  the message, before any division; on every list it never raises a division by zero,
  since the means divide by the length of a list that is not empty.
\<close>

theorem explain_recommendations_never_divides_by_zero:
  "explain_recommendations [] = Inr (Explanation ''No recommendations available'')
   \<and> explain_recommendations recs \<noteq> Inl ZeroDivisionError"
proof
  show "explain_recommendations [] = Inr (Explanation ''No recommendations available'')"
    by (simp add: explain_recommendations_def)
next
  show "explain_recommendations recs \<noteq> Inl ZeroDivisionError"
  proof (cases "recs = []")
    case True
    then show ?thesis by (simp add: explain_recommendations_def)
  next
    case False
    then have n: "0 < length recs" by simp
    show ?thesis
      using explain_loop_no_zero_division
        [of recs "([], [], [], \<lparr>recent = 0, standard = 0, older = 0\<rparr>)"] False
      by (auto simp: explain_recommendations_def Let_def py_div_pos [OF n]
               split: sum.splits prod.splits)
  qed
qed

section \<open>Cold start\<close>

lemma sorted_desc_Nil: "sorted_desc f [] = []"
  by (simp add: sorted_desc_def)

lemma no_events_of_user:
  "(\<forall>ty. \<forall>ev \<in> set (all_events repo ty). e_user_id ev \<noteq> Some uid)
     \<Longrightarrow> get_user_events repo uid = (\<lambda>ty. [])"
  by (auto simp: get_user_events_def filter_empty_conv)

lemma cold_profile:
  assumes "get_user_events repo uid = (\<lambda>ty. [])"
  shows "create_user_profile now repo uid =
     \<lparr> user_id = uid, preferred_categories = [], preferred_grades = [],
       price_preference = ''medium'', category_weights = [], grade_weights_of = [],
       price_range_weights = [],
       event_counts = map (\<lambda>ty. (ty, 0)) event_files,
       profile_generation_time = now \<rparr>"
  using assms
  by (simp add: create_user_profile_def Let_def event_priority_order_def
        process_material_based_events_def extract_search_insights_def
        analyze_price_preferences_def counter_update_def most_common_def sorted_desc_Nil)

text \<open>
  Claim C8. For a user without any event in the repository \<^verbatim>\<open>create_user_profile\<close>
  returns a profile (the function has no failing branch on such a user) whose category
  and grade weights are empty and whose lists of preferred categories and grades are
  empty, so that there is no top category and no top grade; the price weights are empty
  and the price preference is the default.
\<close>

theorem create_user_profile_cold_start:
  "(\<forall>ty. \<forall>ev \<in> set (all_events repo ty). e_user_id ev \<noteq> Some uid) \<Longrightarrow>
     category_weights (create_user_profile now repo uid) = []
   \<and> grade_weights_of (create_user_profile now repo uid) = []
   \<and> preferred_categories (create_user_profile now repo uid) = []
   \<and> preferred_grades (create_user_profile now repo uid) = []
   \<and> price_range_weights (create_user_profile now repo uid) = []
   \<and> price_preference (create_user_profile now repo uid) = ''medium''
   \<and> user_id (create_user_profile now repo uid) = uid"
  by (simp add: cold_profile [OF no_events_of_user])

theorem create_user_profile_cold_start_witness:
  "get_user_events repo_search ''v'' Searches = []
   \<and> category_weights (create_user_profile 0 repo_search ''v'') = []
   \<and> grade_weights_of (create_user_profile 0 repo_search ''v'') = []
   \<and> preferred_categories (create_user_profile 0 repo_search ''v'') = []
   \<and> preferred_grades (create_user_profile 0 repo_search ''v'') = []"
proof -
  have h: "\<forall>ty. \<forall>ev \<in> set (all_events repo_search ty). e_user_id ev \<noteq> Some ''v''"
    by (simp add: repo_search_def no_events_def search_event_def blank_event_def)
  have e: "get_user_events repo_search ''v'' Searches = []"
    by (simp add: get_user_events_def repo_search_def search_event_def blank_event_def)
  from create_user_profile_cold_start [OF h, of 0] e show ?thesis by blast
qed

section \<open>The pools of recommend\_materials\<close>

lemma distinct_fold_update:
  "distinct (map fst d) \<Longrightarrow> distinct (map fst (fold (\<lambda>(k, v) d. AList.update k v d) kvs d))"
  by (induction kvs arbitrary: d) (auto simp: distinct_update)

lemma distinct_dict_of: "distinct (map fst (dict_of kvs))"
  by (simp add: dict_of_def distinct_fold_update)

lemma distinct_candidates: "distinct (map fst (candidate_materials_of repo uid))"
  by (simp add: candidate_materials_of_def get_materials_def distinct_dict_of distinct_map_filter)

lemma score_candidates_items:
  "map (\<lambda>item. (s_material_id item, s_material item))
       (score_candidates now rnd related prof df i cands)
     = filter (\<lambda>(mid, m). str_truthy (categories m) \<and> str_truthy (class_grades m)) cands"
proof (induction cands arbitrary: i)
  case Nil
  then show ?case by simp
next
  case (Cons c cands)
  obtain mid m where c: "c = (mid, m)" by (cases c)
  show ?case
  proof (cases "str_truthy (categories m) \<and> str_truthy (class_grades m)")
    case True
    then show ?thesis unfolding c using Cons.IH [of "Suc i"] by (simp add: Let_def)
  next
    case False
    then show ?thesis unfolding c using Cons.IH [of i] by auto
  qed
qed

lemma bestseller_materials_items:
  "map (\<lambda>item. (s_material_id item, s_material item)) (bestseller_materials now used cands)
     = filter (\<lambda>(mid, m). \<not> (mid \<in> used \<or> \<not> num_truthy (bestseller_rating m))) cands"
  by (induction cands) (auto simp: bestseller_materials_def fallback_item_def Let_def)

lemma set_sorted_desc: "set (sorted_desc f xs) = set xs"
  by (simp add: sorted_desc_def)

lemma length_sorted_desc: "length (sorted_desc f xs) = length xs"
  by (simp add: sorted_desc_def)

lemma py_take_nonneg: "0 \<le> n \<Longrightarrow> py_take n xs = take (nat n) xs"
  by (simp add: py_take_def)

lemma set_py_take: "set (py_take n xs) \<subseteq> set xs"
  by (auto simp: py_take_def dest: in_set_takeD)

lemma recommend_materials_unfold:
  assumes "user_id prof \<noteq> []" and "1 \<le> limit"
  shows "recommend_materials now rnd repo prof limit df =
     (let cands = candidate_materials_of repo (user_id prof);
          S = sorted_desc s_score
                (score_candidates now rnd (build_category_relationships repo) prof df 0 cands);
          F = (if int (length S) < limit
               then take (nat (limit * 2))
                      (sorted_desc s_score (bestseller_materials now (set (map s_material_id S)) cands))
               else [])
      in map format_recommendation (take (nat limit) (S @ F)))"
proof (cases "candidate_materials_of repo (user_id prof) = []")
  case True
  then show ?thesis using assms
    by (simp add: recommend_materials_def Let_def bestseller_materials_def sorted_desc_def)
next
  case False
  have t: "\<And>xs :: scored list. py_take (min limit (int (length xs))) xs = take (nat limit) xs"
    using assms(2) by (simp add: py_take_def min_def)
  show ?thesis using assms False
    by (simp add: recommend_materials_def Let_def t py_take_nonneg)
qed

lemma scored_ids:
  "map s_material_id (score_candidates now rnd related prof df i cands)
     = map fst (filter (\<lambda>(mid, m). str_truthy (categories m) \<and> str_truthy (class_grades m)) cands)"
proof -
  have "map s_material_id (score_candidates now rnd related prof df i cands)
      = map fst (map (\<lambda>item. (s_material_id item, s_material item))
                     (score_candidates now rnd related prof df i cands))"
    by simp
  then show ?thesis by (simp only: score_candidates_items)
qed

lemma length_score_candidates:
  "length (score_candidates now rnd related prof df i cands)
     = length (filter (\<lambda>(mid, m). str_truthy (categories m) \<and> str_truthy (class_grades m)) cands)"
  using arg_cong [OF scored_ids, of length] by simp

lemma length_bestseller_materials:
  "length (bestseller_materials now used cands)
     = length (filter (\<lambda>(mid, m). \<not> (mid \<in> used \<or> \<not> num_truthy (bestseller_rating m))) cands)"
  by (simp add: bestseller_materials_def)

lemma used_iff:
  assumes "distinct (map fst cands)" and "(mid, m) \<in> set cands"
  shows "mid \<in> set (map s_material_id (score_candidates now rnd related prof df i cands))
           \<longleftrightarrow> str_truthy (categories m) \<and> str_truthy (class_grades m)"
proof
  assume "mid \<in> set (map s_material_id (score_candidates now rnd related prof df i cands))"
  then have "mid \<in> fst ` set (filter (\<lambda>(mid, m). str_truthy (categories m) \<and> str_truthy (class_grades m)) cands)"
    by (simp only: scored_ids set_map)
  then obtain m' where m': "(mid, m') \<in> set cands"
      and p: "str_truthy (categories m') \<and> str_truthy (class_grades m')"
    by auto
  from assms m' have "m' = m" by (meson eq_key_imp_eq_value)
  with p show "str_truthy (categories m) \<and> str_truthy (class_grades m)" by simp
next
  assume "str_truthy (categories m) \<and> str_truthy (class_grades m)"
  with assms(2) have "(mid, m) \<in> set (filter (\<lambda>(mid, m). str_truthy (categories m) \<and> str_truthy (class_grades m)) cands)"
    by simp
  then have "mid \<in> fst ` set (filter (\<lambda>(mid, m). str_truthy (categories m) \<and> str_truthy (class_grades m)) cands)"
    by force
  then show "mid \<in> set (map s_material_id (score_candidates now rnd related prof df i cands))"
    by (simp only: scored_ids set_map)
qed

lemma fallback_pool_eq:
  assumes "distinct (map fst cands)"
  shows "filter (\<lambda>(mid, m). \<not> (mid \<in> set (map s_material_id (score_candidates now rnd related prof df i cands))
                              \<or> \<not> num_truthy (bestseller_rating m))) cands
       = filter (\<lambda>(mid, m). \<not> (str_truthy (categories m) \<and> str_truthy (class_grades m))
                              \<and> num_truthy (bestseller_rating m)) cands"
proof (rule filter_cong [OF refl])
  fix x assume x: "x \<in> set cands"
  obtain mid m where xm: "x = (mid, m)" by (cases x)
  from used_iff [OF assms, of mid m now rnd related prof df i] x xm
  show "(case x of (mid, m) \<Rightarrow> \<not> (mid \<in> set (map s_material_id (score_candidates now rnd related prof df i cands))
                              \<or> \<not> num_truthy (bestseller_rating m)))
      = (case x of (mid, m) \<Rightarrow> \<not> (str_truthy (categories m) \<and> str_truthy (class_grades m))
                              \<and> num_truthy (bestseller_rating m))"
    by auto
qed

lemma recommend_materials_length_aux:
  assumes "user_id prof \<noteq> []" and "1 \<le> limit"
  shows "length (recommend_materials now rnd repo prof limit df) =
     min (nat limit)
       (length (filter (\<lambda>(mid, m). str_truthy (categories m) \<and> str_truthy (class_grades m))
                  (candidate_materials_of repo (user_id prof)))
        + length (filter (\<lambda>(mid, m). \<not> (str_truthy (categories m) \<and> str_truthy (class_grades m))
                                      \<and> num_truthy (bestseller_rating m))
                  (candidate_materials_of repo (user_id prof))))"
proof -
  define cands where "cands = candidate_materials_of repo (user_id prof)"
  define sc where "sc = score_candidates now rnd (build_category_relationships repo) prof df 0 cands"
  define S where "S = sorted_desc s_score sc"
  define FB where "FB = sorted_desc s_score (bestseller_materials now (set (map s_material_id S)) cands)"
  define F where "F = (if int (length S) < limit then take (nat (limit * 2)) FB else [])"
  define p where "p = length (filter (\<lambda>(mid, m). str_truthy (categories m) \<and> str_truthy (class_grades m)) cands)"
  define q where "q = length (filter (\<lambda>(mid, m). \<not> (str_truthy (categories m) \<and> str_truthy (class_grades m))
                                      \<and> num_truthy (bestseller_rating m)) cands)"
  have res: "recommend_materials now rnd repo prof limit df
               = map format_recommendation (take (nat limit) (S @ F))"
    using recommend_materials_unfold [OF assms, of now rnd repo df]
    by (simp add: Let_def cands_def sc_def S_def FB_def F_def)
  have lenS: "length S = p"
    by (simp add: S_def sc_def p_def length_sorted_desc length_score_candidates)
  have used: "set (map s_material_id S) = set (map s_material_id sc)"
    by (simp add: S_def set_sorted_desc)
  have d: "distinct (map fst cands)"
    by (simp add: cands_def distinct_candidates)
  have lenFB: "length FB = q"
    unfolding FB_def length_sorted_desc length_bestseller_materials used sc_def q_def
    by (simp only: fallback_pool_eq [OF d])
  have "length (take (nat limit) (S @ F)) = min (nat limit) (p + q)"
  proof (cases "int (length S) < limit")
    case True
    then have "F = take (nat (limit * 2)) FB" by (simp add: F_def)
    then have lenF: "length F = min (nat (limit * 2)) q" by (simp add: lenFB min.commute)
    have n2: "nat (limit * 2) = 2 * nat limit" using assms(2) by simp
    have "length (take (nat limit) (S @ F)) = min (length S + length F) (nat limit)"
      by (simp only: length_take length_append)
    also have "\<dots> = min (nat limit) (p + q)"
      unfolding lenS lenF n2 by arith
    finally show ?thesis .
  next
    case False
    then have "F = []" by (simp add: F_def)
    then have "length (take (nat limit) (S @ F)) = min (length S) (nat limit)"
      by (simp only: length_take append_Nil2)
    also have "\<dots> = min (nat limit) (p + q)"
      using False assms(2) unfolding lenS by arith
    finally show ?thesis .
  qed
  then show ?thesis by (simp add: res cands_def p_def q_def)
qed

lemma score_candidates_origin:
  "item \<in> set (score_candidates now rnd related prof df i cands)
     \<Longrightarrow> (s_material_id item, s_material item) \<in> set cands"
proof -
  assume "item \<in> set (score_candidates now rnd related prof df i cands)"
  then have "(s_material_id item, s_material item)
               \<in> set (map (\<lambda>item. (s_material_id item, s_material item))
                           (score_candidates now rnd related prof df i cands))"
    by force
  then show ?thesis by (simp only: score_candidates_items) simp
qed

lemma bestseller_materials_origin:
  "item \<in> set (bestseller_materials now used cands)
     \<Longrightarrow> (s_material_id item, s_material item) \<in> set cands"
proof -
  assume "item \<in> set (bestseller_materials now used cands)"
  then have "(s_material_id item, s_material item)
               \<in> set (map (\<lambda>item. (s_material_id item, s_material item))
                           (bestseller_materials now used cands))"
    by force
  then show ?thesis by (simp only: bestseller_materials_items) simp
qed

lemma recommend_materials_origin:
  assumes "r \<in> set (recommend_materials now rnd repo prof limit df)"
  shows "\<exists>item. r = format_recommendation item
           \<and> (s_material_id item, s_material item) \<in> set (candidate_materials_of repo (user_id prof))"
proof -
  define cands where "cands = candidate_materials_of repo (user_id prof)"
  define S where "S = sorted_desc s_score
      (score_candidates now rnd (build_category_relationships repo) prof df 0 cands)"
  define FB where "FB = sorted_desc s_score (bestseller_materials now (set (map s_material_id S)) cands)"
  have "user_id prof = [] \<Longrightarrow> recommend_materials now rnd repo prof limit df = []"
    by (simp add: recommend_materials_def)
  moreover have "cands = [] \<Longrightarrow> recommend_materials now rnd repo prof limit df = []"
    by (simp add: recommend_materials_def Let_def cands_def)
  ultimately have ne: "user_id prof \<noteq> []" "cands \<noteq> []"
    using assms by auto
  have "\<exists>xs. recommend_materials now rnd repo prof limit df = map format_recommendation xs
          \<and> set xs \<subseteq> set S \<union> set FB"
  proof (cases "int (length S) < limit")
    case True
    have "recommend_materials now rnd repo prof limit df
        = map format_recommendation
            (py_take (min limit (int (length (S @ py_take (limit * 2) FB))))
               (S @ py_take (limit * 2) FB))"
      using ne True by (simp add: recommend_materials_def Let_def cands_def S_def FB_def)
    moreover have "set (py_take (min limit (int (length (S @ py_take (limit * 2) FB))))
               (S @ py_take (limit * 2) FB)) \<subseteq> set S \<union> set FB"
      using set_py_take [of "min limit (int (length (S @ py_take (limit * 2) FB)))"
                            "S @ py_take (limit * 2) FB"]
            set_py_take [of "limit * 2" FB]
      by auto
    ultimately show ?thesis by blast
  next
    case False
    have "recommend_materials now rnd repo prof limit df
        = map format_recommendation (py_take (min limit (int (length S))) S)"
      using ne False by (simp add: recommend_materials_def Let_def cands_def S_def FB_def)
    moreover have "set (py_take (min limit (int (length S))) S) \<subseteq> set S \<union> set FB"
      using set_py_take [of "min limit (int (length S))" S] by auto
    ultimately show ?thesis by blast
  qed
  then obtain xs where xs: "recommend_materials now rnd repo prof limit df = map format_recommendation xs"
      and sub: "set xs \<subseteq> set S \<union> set FB"
    by blast
  from assms xs have "r \<in> format_recommendation ` set xs" by simp
  then obtain item where item: "item \<in> set xs" and r: "r = format_recommendation item"
    by blast
  from item sub have "item \<in> set S \<or> item \<in> set FB" by blast
  then have "(s_material_id item, s_material item) \<in> set cands"
    by (auto simp: S_def FB_def set_sorted_desc
             dest: score_candidates_origin bestseller_materials_origin)
  with r show ?thesis by (auto simp: cands_def)
qed





lemma format_recommendation_id [simp]:
  "r_material_id (format_recommendation item) = s_material_id item"
  by (simp add: format_recommendation_def Let_def)

lemma format_recommendation_author [simp]:
  "r_author_id (format_recommendation item) = or_default (author_id (s_material item)) ''unknown''"
  by (simp add: format_recommendation_def Let_def)

lemma interactions_no_events: "get_user_interactions \<lparr> all_events = no_events, materials_list = ms \<rparr> uid = {}"
  by (simp add: get_user_interactions_def get_user_events_def no_events_def)


lemma cands_one_author:
  "candidate_materials_of repo_one_author ''u'' =
     [(''m1'', math_material ''m1''), (''m2'', math_material ''m2''), (''m3'', math_material ''m3''),
      (''m4'', math_material ''m4''), (''m5'', math_material ''m5'')]"
  by (simp add: candidate_materials_of_def repo_one_author_def interactions_no_events
        get_materials_def dict_of_def math_material_def bare_material_def)

lemma cands_favorite:
  "candidate_materials_of repo_favorite ''u'' = [(''m1'', math_material ''m1'')]"
  by (simp add: candidate_materials_of_def repo_favorite_def get_user_interactions_def
        get_user_events_def no_events_def
        get_materials_def dict_of_def math_material_def bare_material_def)


lemma cold_profile_user: "user_id (cold_profile_of uid) = uid"
  by (simp add: cold_profile_of_def)




section \<open>Author diversity\<close>

lemma author_loop_count:
  "int (length (filter (\<lambda>m. author_of m = a) (author_diversity_loop c cap ms)))
     \<le> max 0 (cap - c a)"
proof (induction ms arbitrary: c)
  case Nil
  then show ?case by simp
next
  case (Cons item items)
  show ?case
  proof (cases "c (author_of item) < cap")
    case True
    have ih: "int (length (filter (\<lambda>m. author_of m = a)
                 (author_diversity_loop (c(author_of item := c (author_of item) + 1)) cap items)))
               \<le> max 0 (cap - (c(author_of item := c (author_of item) + 1)) a)"
      by (rule Cons.IH)
    show ?thesis
    proof (cases "author_of item = a")
      case same: True
      with True ih show ?thesis by (simp add: Let_def)
    next
      case False
      with True ih show ?thesis by (simp add: Let_def)
    qed
  next
    case False
    with Cons.IH [of c] show ?thesis by (simp add: Let_def)
  qed
qed

lemma author_loop_subset: "set (author_diversity_loop c cap ms) \<subseteq> set ms"
  by (induction ms arbitrary: c) (auto simp: Let_def)

lemma author_loop_sorted:
  "sorted_wrt R ms \<Longrightarrow> sorted_wrt R (author_diversity_loop c cap ms)"
proof (induction ms arbitrary: c)
  case Nil
  then show ?case by simp
next
  case (Cons item items)
  then show ?case
    using author_loop_subset by (fastforce simp: Let_def)
qed

lemma filter_by_author_diversity_cap:
  "length (filter (\<lambda>m. author_of m = a) (filter_by_author_diversity ms 2)) \<le> 2
   \<and> set (filter_by_author_diversity ms 2) \<subseteq> set ms
   \<and> (sorted_wrt (\<lambda>x y. s_score y \<le> s_score x) ms \<longrightarrow>
        sorted_wrt (\<lambda>x y. s_score y \<le> s_score x) (filter_by_author_diversity ms 2))"
  using author_loop_count [of a "\<lambda>_. 0" 2 ms] author_loop_subset [of "\<lambda>_. 0" 2 ms]
        author_loop_sorted [of "\<lambda>x y. s_score y \<le> s_score x" ms "\<lambda>_. 0" 2]
  by (simp add: filter_by_author_diversity_def)

lemma top_five_filtered:
  "filter_by_author_diversity top_five 2 = [scored_sample ''m1'' 5, scored_sample ''m2'' 4]"
  by (simp add: filter_by_author_diversity_def top_five_def scored_sample_def author_of_def
        math_material_def bare_material_def or_default_def Let_def)

text \<open>
  Claim C2. The class defines the author filter, which caps the items of an author and
  keeps the order of the rest (the two lemmas above), and configures a maximum of 4
  materials per author, but \<^verbatim>\<open>recommend_materials\<close> never calls the filter: five scored
  materials of one author all appear in one result, more than the cap of 2 of the claim
  and more than the configured maximum.
\<close>

theorem recommend_materials_ignores_author_cap:
  "length (filter (\<lambda>r. r_author_id r = ''a1'')
        (recommend_materials 0 (\<lambda>_. 0) repo_one_author (cold_profile_of ''u'') 5 (3 / 10))) = 5
   \<and> config_max_per_author = 4"
proof -
  let ?R = "recommend_materials 0 (\<lambda>_. 0) repo_one_author (cold_profile_of ''u'') 5 (3 / 10)"
  have len: "length ?R = 5"
    using recommend_materials_length_aux [of "cold_profile_of ''u''" 5 0 "\<lambda>_. 0" repo_one_author "3 / 10"]
    by (simp add: cold_profile_user cands_one_author math_material_def bare_material_def
          str_truthy_def num_truthy_def)
  have "\<And>r. r \<in> set ?R \<Longrightarrow> r_author_id r = ''a1''"
  proof -
    fix r assume "r \<in> set ?R"
    from recommend_materials_origin [OF this] obtain item where
      r: "r = format_recommendation item" and
      c: "(s_material_id item, s_material item) \<in> set (candidate_materials_of repo_one_author ''u'')"
      by (auto simp: cold_profile_user)
    from c have "author_id (s_material item) = Some ''a1''"
      by (auto simp: cands_one_author math_material_def bare_material_def)
    with r show "r_author_id r = ''a1''"
      by (simp add: or_default_def)
  qed
  then have "filter (\<lambda>r. r_author_id r = ''a1'') ?R = ?R" by (simp add: filter_id_conv)
  with len show ?thesis by (simp add: config_max_per_author_def)
qed

section \<open>Known materials\<close>

lemma collect_Inr: "collect rs = Inr xs \<Longrightarrow> rs = map Inr xs"
proof (induction rs arbitrary: xs)
  case Nil
  then show ?case by simp
next
  case (Cons r rs)
  show ?case
  proof (cases r)
    case (Inl e)
    with Cons.prems show ?thesis by simp
  next
    case (Inr x)
    with Cons.prems obtain ys where ys: "collect rs = Inr ys" and xs: "xs = x # ys"
      by (auto split: sum.splits)
    from Cons.IH [OF ys] Inr xs show ?thesis by simp
  qed
qed

lemma collect_map_Inr:
  assumes "collect (map f ys) = Inr recs"
  shows "list_all2 (\<lambda>y r. f y = Inr r) ys recs"
proof -
  from collect_Inr [OF assms] have "map f ys = map Inr recs" .
  then show ?thesis
    by (induction ys arbitrary: recs) (auto simp: list_all2_Cons1)
qed

lemma list_all2_right_member:
  "list_all2 P ys rs \<Longrightarrow> r \<in> set rs \<Longrightarrow> \<exists>y \<in> set ys. P y r"
  by (induction rule: list_all2_induct) auto


lemma scored_record_id:
  "scored_record mats ge ie mid sd = Inr r \<Longrightarrow> cb_rec_material_id r = mid"
  by (auto simp: scored_record_def Let_def split: option.splits sum.splits if_splits)


lemma known_user_result_ids:
  assumes "map_of prefs uid = Some p"
      and "get_recommendations prefs mats sm ge uid limit ie = Inr recs"
  shows "cb_rec_material_id ` set recs \<inter> (set (liked_material_ids p) \<union> set (disliked_material_ids p)) = {}"
proof -
  define ys where "ys = py_take limit (sorted_desc (\<lambda>(mid, sd). total_score sd)
                           (filter_known_materials p (sm uid)))"
  from assms have "collect (map (\<lambda>(mid, sd). scored_record mats ge ie mid sd) ys) = Inr recs"
    by (simp add: get_recommendations_def Let_def ys_def)
  from collect_map_Inr [OF this]
  have rel: "list_all2 (\<lambda>y r. (case y of (mid, sd) \<Rightarrow> scored_record mats ge ie mid sd) = Inr r) ys recs" .
  have ys_sub: "set ys \<subseteq> set (filter_known_materials p (sm uid))"
  proof -
    have "set ys \<subseteq> set (sorted_desc (\<lambda>(mid, sd). total_score sd) (filter_known_materials p (sm uid)))"
      unfolding ys_def by (rule set_py_take)
    then show ?thesis by (simp only: set_sorted_desc)
  qed
  have "\<And>r. r \<in> set recs \<Longrightarrow> cb_rec_material_id r \<notin> set (liked_material_ids p) \<union> set (disliked_material_ids p)"
  proof -
    fix r assume "r \<in> set recs"
    from list_all2_right_member [OF rel this] obtain y where y: "y \<in> set ys"
        and fy: "(case y of (mid, sd) \<Rightarrow> scored_record mats ge ie mid sd) = Inr r"
      by blast
    obtain mid sd where yy: "y = (mid, sd)" by (cases y)
    from fy yy have "cb_rec_material_id r = mid" by (simp add: scored_record_id)
    moreover from y ys_sub yy have "mid \<notin> set (liked_material_ids p) \<and> mid \<notin> set (disliked_material_ids p)"
      by (auto simp: filter_known_materials_def)
    ultimately show "cb_rec_material_id r \<notin> set (liked_material_ids p) \<union> set (disliked_material_ids p)"
      by simp
  qed
  then show ?thesis by blast
qed

lemma analyze_lookup:
  "map_of (analyze_user_profiles ups) uid
     = map_option (\<lambda>prof. extract_material_preferences prof
                     \<lparr> liked_material_ids = [], disliked_material_ids = [] \<rparr>) (map_of ups uid)"
  by (induction ups) (auto simp: analyze_user_profiles_def)

lemma extracted_lists:
  "cb_interaction_history prof = Some h \<Longrightarrow>
     set (liked_material_ids (extract_material_preferences prof init))
       = set (or_default (purchases h) []) \<union> set (or_default (favorites h) [])
   \<and> set (disliked_material_ids (extract_material_preferences prof init))
       = (case negative_signals h of None \<Rightarrow> {}
          | Some ns \<Rightarrow> set (or_default (bounced_from ns) []) \<union> set (or_default (removed_from_cart ns) []))"
  by (auto simp: extract_material_preferences_def split: option.splits)

lemma interactions_member:
  assumes "ty = Purchases \<or> ty = FreeDownload" and "ev \<in> set (all_events repo ty)"
      and "e_user_id ev = Some u" and "e_material_id ev = Some mid" and "mid \<noteq> []"
  shows "mid \<in> get_user_interactions repo u"
proof -
  from assms(2,3) have "ev \<in> set (get_user_events repo u ty)"
    by (simp add: get_user_events_def)
  with assms(1,4,5) show ?thesis
    by (force simp: get_user_interactions_def)
qed

lemma recommended_not_interacted:
  "r_material_id ` set (recommend_materials now rnd repo p limit df)
     \<inter> get_user_interactions repo (user_id p) = {}"
proof -
  have "\<And>r. r \<in> set (recommend_materials now rnd repo p limit df)
          \<Longrightarrow> r_material_id r \<notin> get_user_interactions repo (user_id p)"
  proof -
    fix r assume "r \<in> set (recommend_materials now rnd repo p limit df)"
    from recommend_materials_origin [OF this] obtain item where
      r: "r = format_recommendation item" and
      c: "(s_material_id item, s_material item) \<in> set (candidate_materials_of repo (user_id p))"
      by blast
    from c have "s_material_id item \<notin> get_user_interactions repo (user_id p)"
      by (simp add: candidate_materials_of_def)
    with r show "r_material_id r \<notin> get_user_interactions repo (user_id p)" by simp
  qed
  then show ?thesis by blast
qed

text \<open>
  Claim C4, as stated, fails for the prototype recommender: a material the user has added
  to the favourites is still a candidate and is recommended, since only purchases and
  free downloads are collected as interactions.
\<close>

theorem favorited_material_recommended_counterexample:
  "favorite_event \<in> set (get_user_events repo_favorite ''u'' AddToFavorites)
   \<and> e_material_id favorite_event = Some ''m1''
   \<and> ''m1'' \<in> r_material_id ` set (recommend_materials 0 (\<lambda>_. 0) repo_favorite (cold_profile_of ''u'') 1 (3 / 10))"
proof -
  let ?R = "recommend_materials 0 (\<lambda>_. 0) repo_favorite (cold_profile_of ''u'') 1 (3 / 10)"
  have u: "user_id (cold_profile_of ''u'') = ''u''" by (simp add: cold_profile_of_def)
  have len: "length ?R = 1"
    using recommend_materials_length_aux [of "cold_profile_of ''u''" 1 0 "\<lambda>_. 0" repo_favorite "3 / 10"]
    by (simp add: u cands_favorite math_material_def bare_material_def str_truthy_def num_truthy_def)
  then obtain r where R: "?R = [r]" by (cases ?R) auto
  then have "r \<in> set ?R" by simp
  from recommend_materials_origin [OF this] obtain item where
      r: "r = format_recommendation item" and
      c: "(s_material_id item, s_material item) \<in> set (candidate_materials_of repo_favorite ''u'')"
    by (auto simp: u)
  from c have "s_material_id item = ''m1''" by (simp add: cands_favorite)
  with r have "r_material_id r = ''m1''" by simp
  with R have "''m1'' \<in> r_material_id ` set ?R" by force
  moreover have "favorite_event \<in> set (get_user_events repo_favorite ''u'' AddToFavorites)"
    by (simp add: get_user_events_def repo_favorite_def favorite_event_def blank_event_def)
  moreover have "e_material_id favorite_event = Some ''m1''"
    by (simp add: favorite_event_def)
  ultimately show ?thesis by blast
qed

text \<open>
  Claim C4, amended. In the content-based recommender no material the user has purchased,
  favourited, bounced from or removed from the cart is in the result for that user. In
  the prototype recommender no material the user has purchased or downloaded for free is
  a candidate or in the result, and every such event with a non-empty material id counts.
\<close>

theorem known_materials_excluded:
  "(map_of user_profiles uid = Some prof \<and> cb_interaction_history prof = Some h
      \<and> get_recommendations (analyze_user_profiles user_profiles) mats score_methods
            generate_explanation uid limit include_explanation = Inr recs
    \<longrightarrow> cb_rec_material_id ` set recs
          \<inter> (set (or_default (purchases h) []) \<union> set (or_default (favorites h) [])
              \<union> (case negative_signals h of
                    None \<Rightarrow> {}
                  | Some ns \<Rightarrow> set (or_default (bounced_from ns) [])
                               \<union> set (or_default (removed_from_cart ns) []))) = {})
   \<and> r_material_id ` set (recommend_materials now rnd repo p limit' df)
        \<inter> get_user_interactions repo (user_id p) = {}
   \<and> ((ty = Purchases \<or> ty = FreeDownload) \<and> ev \<in> set (all_events repo ty)
        \<and> e_user_id ev = Some u \<and> e_material_id ev = Some mid \<and> mid \<noteq> []
      \<longrightarrow> mid \<in> get_user_interactions repo u)"
proof (intro conjI impI)
  assume a: "map_of user_profiles uid = Some prof \<and> cb_interaction_history prof = Some h
      \<and> get_recommendations (analyze_user_profiles user_profiles) mats score_methods
            generate_explanation uid limit include_explanation = Inr recs"
  define prefs where "prefs = extract_material_preferences prof
                     \<lparr> liked_material_ids = [], disliked_material_ids = [] \<rparr>"
  from a have look: "map_of (analyze_user_profiles user_profiles) uid = Some prefs"
    by (simp add: analyze_lookup prefs_def)
  from a have hist: "cb_interaction_history prof = Some h" by simp
  from a known_user_result_ids [OF look]
  have "cb_rec_material_id ` set recs
          \<inter> (set (liked_material_ids prefs) \<union> set (disliked_material_ids prefs)) = {}"
    by blast
  then show "cb_rec_material_id ` set recs
          \<inter> (set (or_default (purchases h) []) \<union> set (or_default (favorites h) [])
              \<union> (case negative_signals h of
                    None \<Rightarrow> {}
                  | Some ns \<Rightarrow> set (or_default (bounced_from ns) [])
                               \<union> set (or_default (removed_from_cart ns) []))) = {}"
    unfolding prefs_def by (simp only: extracted_lists [OF hist])
next
  show "r_material_id ` set (recommend_materials now rnd repo p limit' df)
        \<inter> get_user_interactions repo (user_id p) = {}"
    by (rule recommended_not_interacted)
next
  assume "(ty = Purchases \<or> ty = FreeDownload) \<and> ev \<in> set (all_events repo ty)
        \<and> e_user_id ev = Some u \<and> e_material_id ev = Some mid \<and> mid \<noteq> []"
  then show "mid \<in> get_user_interactions repo u"
    using interactions_member by blast
qed

lemma cb_known_user_result:
  "get_recommendations (analyze_user_profiles cb_profiles) cb_catalog cb_scores no_explanation
      ''u'' 5 False
    = Inr [rec_B \<lparr> cb_rec_score := 1, cb_rec_explanation := None \<rparr>]"
  by (simp add: get_recommendations_def analyze_user_profiles_def cb_profiles_def cb_history_def
        extract_material_preferences_def or_default_def cb_scores_def filter_known_materials_def
        sorted_desc_def py_take_def scored_record_def cb_catalog_def cb_sample_def rec_B_def
        Let_def)

theorem known_materials_excluded_witness:
  "map_of cb_profiles ''u'' = Some \<lparr> cb_interaction_history = Some cb_history \<rparr>
   \<and> get_recommendations (analyze_user_profiles cb_profiles) cb_catalog cb_scores no_explanation
        ''u'' 5 False = Inr [rec_B \<lparr> cb_rec_score := 1, cb_rec_explanation := None \<rparr>]
   \<and> ''A'' \<in> set (or_default (purchases cb_history) [])
   \<and> ''A'' \<notin> cb_rec_material_id ` set [rec_B \<lparr> cb_rec_score := 1, cb_rec_explanation := None \<rparr>]
   \<and> purchase_event \<in> set (all_events repo_purchase Purchases)
   \<and> e_user_id purchase_event = Some ''u'' \<and> e_material_id purchase_event = Some ''m1''
   \<and> ''m1'' \<in> get_user_interactions repo_purchase ''u''
   \<and> ''m1'' \<notin> r_material_id ` set (recommend_materials 0 (\<lambda>_. 0) repo_purchase
                                        (cold_profile_of ''u'') 2 (3 / 10))"
proof -
  note inst = known_materials_excluded
    [where user_profiles = cb_profiles and uid = "''u''"
       and prof = "\<lparr> cb_interaction_history = Some cb_history \<rparr>" and h = cb_history
       and mats = cb_catalog and score_methods = cb_scores
       and generate_explanation = no_explanation and limit = "5" and include_explanation = False
       and recs = "[rec_B \<lparr> cb_rec_score := 1, cb_rec_explanation := None \<rparr>]"
       and now = "0" and rnd = "\<lambda>_. 0" and repo = repo_purchase and p = "cold_profile_of ''u''"
       and limit' = "2" and df = "3 / 10" and ty = Purchases and ev = purchase_event
       and u = "''u''" and mid = "''m1''"]
  have a1: "map_of cb_profiles ''u'' = Some \<lparr> cb_interaction_history = Some cb_history \<rparr>"
    by (simp add: cb_profiles_def)
  have a2: "cb_interaction_history \<lparr> cb_interaction_history = Some cb_history \<rparr> = Some cb_history"
    by simp
  have a3: "''A'' \<in> set (or_default (purchases cb_history) [])"
    by (simp add: cb_history_def or_default_def)
  have b1: "purchase_event \<in> set (all_events repo_purchase Purchases)"
    by (simp add: repo_purchase_def)
  have b2: "e_user_id purchase_event = Some ''u'' \<and> e_material_id purchase_event = Some ''m1''"
    by (simp add: purchase_event_def)
  have b3: "''m1'' \<noteq> []" by simp
  from inst a1 a2 cb_known_user_result
  have c1: "cb_rec_material_id ` set [rec_B \<lparr> cb_rec_score := 1, cb_rec_explanation := None \<rparr>]
          \<inter> (set (or_default (purchases cb_history) []) \<union> set (or_default (favorites cb_history) [])
              \<union> (case negative_signals cb_history of
                    None \<Rightarrow> {}
                  | Some ns \<Rightarrow> set (or_default (bounced_from ns) [])
                               \<union> set (or_default (removed_from_cart ns) []))) = {}"
    by blast
  from c1 a3 have c2: "''A'' \<notin> cb_rec_material_id ` set [rec_B \<lparr> cb_rec_score := 1, cb_rec_explanation := None \<rparr>]"
    by blast
  from inst b1 b2 b3 have c3: "''m1'' \<in> get_user_interactions repo_purchase ''u''"
    by blast
  from inst have "r_material_id ` set (recommend_materials 0 (\<lambda>_. 0) repo_purchase
                     (cold_profile_of ''u'') 2 (3 / 10))
                   \<inter> get_user_interactions repo_purchase (user_id (cold_profile_of ''u'')) = {}"
    by blast
  with c3 have c4: "''m1'' \<notin> r_material_id ` set (recommend_materials 0 (\<lambda>_. 0) repo_purchase
                                        (cold_profile_of ''u'') 2 (3 / 10))"
    by (auto simp: cold_profile_user)
  from a1 cb_known_user_result a3 c2 b1 b2 c3 c4 show ?thesis by blast
qed

section \<open>Unknown users\<close>













section \<open>The wall clock in the profile\<close>

lemma lower_math: "lower ''Math'' = ''math''"
  by code_simp

lemma lower_math2: "lower ''math'' = ''math''"
  by (simp add: lower_def lower_char_def Let_def)

lemma lower_3: "lower ''3'' = ''3''"
  by (simp add: lower_def lower_char_def Let_def)

lemma cats_math: "extract_categories ''Math'' = [''Math'']"
  by (simp add: extract_categories_def strip_def is_space_def)

lemma grades_3: "extract_grades ''3'' = [''3'']"
  by (simp add: extract_grades_def strip_def is_space_def)

lemma events_search:
  "get_user_events repo_search ''u'' = no_events (Searches := [search_event])"
  by (rule ext) (simp add: get_user_events_def repo_search_def no_events_def search_event_def blank_event_def)

lemma materials_search: "get_materials repo_search = [(''m1'', math_material ''m1'')]"
  by (simp add: get_materials_def repo_search_def dict_of_def math_material_def bare_material_def)

lemma insights_search:
  "extract_search_insights now [(''m1'', math_material ''m1'')] [search_event] w
     = ([(''Math'', w * calculate_time_decay now (Stamp 0) None)], [])"
  by (simp add: extract_search_insights_def search_event_def blank_event_def math_material_def
        bare_material_def or_default_def Let_def lower_math lower_math2 lower_3 cats_math grades_3
        counter_add_def counter_get_def)

lemma no_material_events:
  "process_material_based_events now [] ty ref mats = ([], [])"
  by (simp add: process_material_based_events_def)

lemma profile_search:
  "category_weights (create_user_profile now repo_search ''u'')
     = [(''Math'', 29 / 100 * calculate_time_decay now (Stamp 0) None)]"
  by (simp add: create_user_profile_def events_search materials_search Let_def
        event_priority_order_def no_events_def no_material_events insights_search
        counter_update_def counter_add_def counter_get_def get_event_weight_def)

lemma decay_now0: "calculate_time_decay 0 (Stamp 0) None = 1"
proof -
  have "max 0 (timedelta_days (0 - 0)) = 0" by (simp add: timedelta_days_def)
  then have "calculate_time_decay 0 (Stamp 0) None = math_pow 2 (float_div (- real_of_int 0) 30)"
    by (simp add: decay_of_days parse_datetime_def)
  then show ?thesis by (simp only: decay_value_zero_days)
qed

lemma decay_now30: "calculate_time_decay (days 30) (Stamp 0) None = 1 / 2"
proof -
  have "max 0 (timedelta_days (days 30 - 0)) = 30" by (simp add: timedelta_days_of_days)
  then have "calculate_time_decay (days 30) (Stamp 0) None
      = math_pow 2 (float_div (- real_of_int 30) 30)"
    by (simp add: decay_of_days parse_datetime_def)
  then show ?thesis by (simp only: decay_value_thirty_days)
qed

text \<open>
  Claim C3 asks that no affinity value depends on the wall clock. The search events are
  decayed against \<^verbatim>\<open>datetime.now()\<close> and not against the reference time of the profile:
  the same repository, with one search of the user for the keyword of a category, gives
  the category the weight 0.29 when the profile is built at the time of the search and
  0.145 when it is built thirty days later.
\<close>

theorem profile_depends_on_wall_clock:
  "category_weights (create_user_profile 0 repo_search ''u'') = [(''Math'', 29 / 100)]
   \<and> category_weights (create_user_profile (days 30) repo_search ''u'') = [(''Math'', 29 / 200)]"
  by (simp add: profile_search decay_now0 decay_now30)

end
